theory Spec2Isabelle
  imports Main "HOL-Library.Word"
begin

section \<open>Values, types and errors of the host language\<close>

text \<open>
  The server in \<^verbatim>\<open>net/rpc/server.go\<close> works on values it only sees through
  reflection. A \<open>reflect.Type\<close> is kept as far as the server looks at it: whether
  its kind is \<open>Ptr\<close> (then it has an element type), and otherwise its \<open>Name()\<close>
  and \<open>PkgPath()\<close>. Unnamed non-pointer types such as \<open>struct{}\<close> have both
  strings empty.
\<close>

datatype rtype = PtrTo rtype | NonPtr string string

fun Name :: "rtype \<Rightarrow> string" where
  "Name (PtrTo t) = []"
| "Name (NonPtr n p) = n"

fun PkgPath :: "rtype \<Rightarrow> string" where
  "PkgPath (PtrTo t) = []"
| "PkgPath (NonPtr n p) = p"

fun isPtr :: "rtype \<Rightarrow> bool" where
  "isPtr (PtrTo t) = True"
| "isPtr (NonPtr n p) = False"

text \<open>
  An \<open>error\<close> is an interface value; the code compares it with the two sentinels
  of package \<open>io\<close> and otherwise only reads its message.
\<close>

datatype error = EOF | ErrUnexpectedEOF | ErrorString string

fun ErrorStr :: "error \<Rightarrow> string" where
  "ErrorStr EOF = ''EOF''"
| "ErrorStr ErrUnexpectedEOF = ''unexpected EOF''"
| "ErrorStr (ErrorString s) = s"

text \<open>
  Argument and reply values are opaque to the server. \<open>EmptyStruct\<close> is
  \<open>struct{}{}\<close>, \<open>Zero t\<close> the zero value \<open>reflect.New\<close> allocates for
  type \<open>t\<close>, \<open>NoGob\<close> a value the gob encoder refuses, and \<open>Ref v\<close> a
  pointer to \<open>v\<close>.
\<close>

datatype gvalue = EmptyStruct | Zero rtype | Data nat | NoGob nat | Ref gvalue

fun gobOK :: "gvalue \<Rightarrow> bool" where
  "gobOK EmptyStruct = True"
| "gobOK (Zero t) = True"
| "gobOK (Data n) = True"
| "gobOK (NoGob n) = False"
| "gobOK (Ref v) = gobOK v"

text \<open>
  Modelled from the spec: package \<open>go-common/net/rpc/context\<close> is not among the
  sources. Its \<open>Context\<close> is the invocation context of the spec: a record of the
  service method string, the sequence number, the authenticated user and the opaque
  trace payload, built by \<open>NewContext\<close> and never changed.
\<close>

record Context =
  ctx_ServiceMethod :: string
  ctx_Seq :: "64 word"
  ctx_User :: string
  ctx_Trace :: "nat option"

definition NewContext :: "nat option \<Rightarrow> string \<Rightarrow> string \<Rightarrow> 64 word \<Rightarrow> Context" where
  "NewContext tr user sm sq =
     \<lparr>ctx_ServiceMethod = sm, ctx_Seq = sq, ctx_User = user, ctx_Trace = tr\<rparr>"

section \<open>Wire records\<close>

record Request =
  req_ServiceMethod :: string
  req_Seq :: "64 word"
  req_Trace :: "nat option"
  req_ctx :: "Context option"

record Auth =
  User :: string
  Token :: string

record Response =
  resp_ServiceMethod :: string
  resp_Seq :: "64 word"
  resp_Error :: string

definition zeroRequest :: Request where
  "zeroRequest = \<lparr>req_ServiceMethod = [], req_Seq = 0, req_Trace = None, req_ctx = None\<rparr>"

definition zeroAuth :: Auth where
  "zeroAuth = \<lparr>User = [], Token = []\<rparr>"

definition zeroResponse :: Response where
  "zeroResponse = \<lparr>resp_ServiceMethod = [], resp_Seq = 0, resp_Error = []\<rparr>"

section \<open>The world outside the server\<close>

text \<open>
  Handlers and interceptor hooks are user code. They read and change a user state
  \<open>'u\<close>; the model also logs every call that leaves the server, in program order.
\<close>

datatype event =
    EvAuth Context string string
  | EvRate Context
  | EvHandler string Context gvalue gvalue
  | EvStat Context gvalue "error option"

record 'u world =
  user :: 'u
  calls :: "event list"

datatype rvalue = NilIface | Val rtype bool

record 'u rmethod =
  mName :: string
  mPkgPath :: string
  mIn :: "rtype list"
  mOut :: "rtype list"
  Func :: "rvalue \<Rightarrow> Context \<Rightarrow> gvalue \<Rightarrow> gvalue \<Rightarrow> 'u \<Rightarrow> (gvalue \<times> error option) \<times> 'u"

record 'u methodType =
  meth :: "'u rmethod"
  ArgType :: rtype
  ReplyType :: rtype

record 'u service =
  name :: string
  rcvr :: rvalue
  styp :: rtype
  methods :: "string \<rightharpoonup> 'u methodType"

record 'u Interceptor =
  Rate :: "Context \<Rightarrow> 'u \<Rightarrow> error option \<times> 'u"
  Stat :: "Context \<Rightarrow> gvalue \<Rightarrow> error option \<Rightarrow> 'u \<Rightarrow> 'u"
  Auth :: "Context \<Rightarrow> string \<Rightarrow> string \<Rightarrow> 'u \<Rightarrow> error option \<times> 'u"

record 'u Server =
  serviceMap :: "string \<rightharpoonup> 'u service"
  Interceptor :: "'u Interceptor option"
  Handshake :: bool

definition newServer :: "'u Server" where
  "newServer = \<lparr>serviceMap = Map.empty, Interceptor = None, Handshake = False\<rparr>"

text \<open>
  What the reflection runtime and the Unicode tables know and the source does not:
  the method set of a user type (\<open>typ.NumMethod()\<close>, \<open>typ.Method(m)\<close>), which
  types implement the context interface, how a type prints, and which multi-byte
  first runes are upper case.
\<close>

record 'u reflect_env =
  Methods :: "rtype \<Rightarrow> 'u rmethod list"
  Implements_ctxType :: "rtype \<Rightarrow> bool"
  TypeString :: "rtype \<Rightarrow> string"
  IsUpperMultiByte :: "string \<Rightarrow> bool"

definition authServiceMethod :: string where
  "authServiceMethod = ''inner.Auth''"

definition pingServiceMethod :: string where
  "pingServiceMethod = ''inner.Ping''"

definition service_inner :: string where
  "service_inner = ''inner''"

definition typeOfError :: rtype where
  "typeOfError = NonPtr ''error'' []"

definition ctxType :: rtype where
  "ctxType = NonPtr ''Context'' ''go-common/net/rpc/context''"

text \<open>The built-in \<open>pinger\<close> type and its one method, as declared in the source.\<close>

definition pingerType :: rtype where
  "pingerType = NonPtr ''pinger'' ''go-common/net/rpc''"

definition Ping :: "'u rmethod" where
  "Ping = \<lparr>mName = ''Ping'', mPkgPath = [],
            mIn = [PtrTo pingerType, ctxType, PtrTo (NonPtr [] []), PtrTo (NonPtr [] [])],
            mOut = [typeOfError],
            Func = (\<lambda>p c arg reply u. ((reply, None), u))\<rparr>"

definition new_pinger :: rvalue where
  "new_pinger = Val (PtrTo pingerType) False"

definition NumMethods :: "'u reflect_env \<Rightarrow> rtype \<Rightarrow> 'u rmethod list" where
  "NumMethods env t = (if t = PtrTo pingerType then [Ping] else Methods env t)"

definition Implements_ctx :: "'u reflect_env \<Rightarrow> rtype \<Rightarrow> bool" where
  "Implements_ctx env t = (t = ctxType \<or> Implements_ctxType env t)"

section \<open>Registration\<close>

text \<open>
  \<open>isExported\<close> decodes the first rune and asks \<open>unicode.IsUpper\<close>. The empty
  string decodes to \<open>RuneError\<close>, which is not upper case; a one-byte rune is upper
  case from \<open>A\<close> to \<open>Z\<close>.
\<close>

definition isExported :: "'u reflect_env \<Rightarrow> string \<Rightarrow> bool" where
  "isExported env nm =
     (case nm of
        [] \<Rightarrow> False
      | c # cs \<Rightarrow>
          if (of_char c :: nat) < 128 then 65 \<le> (of_char c :: nat) \<and> (of_char c :: nat) \<le> 90
          else IsUpperMultiByte env nm)"

fun isExportedOrBuiltinType :: "'u reflect_env \<Rightarrow> rtype \<Rightarrow> bool" where
  "isExportedOrBuiltinType env (PtrTo t) = isExportedOrBuiltinType env t"
| "isExportedOrBuiltinType env (NonPtr n p) = (isExported env n \<or> p = [])"

text \<open>
  The loop of \<open>suitableMethods\<close> over the method set, one \<open>continue\<close> per failed
  check, in the order of the source. Logging (\<open>reportErr\<close>) has no effect on the
  result.
\<close>

fun suitableMethods_loop ::
  "'u reflect_env \<Rightarrow> 'u rmethod list \<Rightarrow> (string \<rightharpoonup> 'u methodType) \<Rightarrow> (string \<rightharpoonup> 'u methodType)"
where
  "suitableMethods_loop env [] ms = ms"
| "suitableMethods_loop env (m # rest) ms =
     (if mPkgPath m \<noteq> [] then suitableMethods_loop env rest ms
      else if length (mIn m) \<noteq> 4 then suitableMethods_loop env rest ms
      else if \<not> Implements_ctx env (mIn m ! 1) then suitableMethods_loop env rest ms
      else if \<not> isExportedOrBuiltinType env (mIn m ! 2) then suitableMethods_loop env rest ms
      else if \<not> isPtr (mIn m ! 3) then suitableMethods_loop env rest ms
      else if \<not> isExportedOrBuiltinType env (mIn m ! 3) then suitableMethods_loop env rest ms
      else if length (mOut m) \<noteq> 1 then suitableMethods_loop env rest ms
      else if mOut m ! 0 \<noteq> typeOfError then suitableMethods_loop env rest ms
      else suitableMethods_loop env rest
             (ms(mName m \<mapsto> \<lparr>meth = m, ArgType = mIn m ! 2, ReplyType = mIn m ! 3\<rparr>)))"

definition suitableMethods ::
  "'u reflect_env \<Rightarrow> rtype \<Rightarrow> bool \<Rightarrow> (string \<rightharpoonup> 'u methodType)"
where
  "suitableMethods env t reportErr = suitableMethods_loop env (NumMethods env t) Map.empty"

text \<open>
  \<open>reflect.Indirect(s.rcvr).Type()\<close>: a nil pointer indirects to the zero
  \<open>Value\<close>, whose \<open>Type()\<close> panics; so does a nil interface. \<open>None\<close> is the
  panic.
\<close>

fun Indirect_Type :: "rvalue \<Rightarrow> rtype option" where
  "Indirect_Type NilIface = None"
| "Indirect_Type (Val (PtrTo t) isnil) = (if isnil then None else Some t)"
| "Indirect_Type (Val (NonPtr n p) isnil) = Some (NonPtr n p)"

text \<open>
  \<open>register\<close> returns the server and the error; \<open>None\<close> is a panic. A nil
  \<open>serviceMap\<close> reads like an empty one and is replaced by one before the first
  store, so both are the empty map here.
\<close>

definition register ::
  "'u reflect_env \<Rightarrow> 'u Server \<Rightarrow> rvalue \<Rightarrow> string \<Rightarrow> bool \<Rightarrow> ('u Server \<times> error option) option"
where
  "register env server r nm useName =
     (case Indirect_Type r of
        None \<Rightarrow> None
      | Some it \<Rightarrow>
          (case r of
             NilIface \<Rightarrow> None
           | Val t isnil \<Rightarrow>
               (let sname = (if useName then nm else Name it) in
                if sname = [] then
                  Some (server, Some (ErrorString
                    (''rpc.Register: no service name for type '' @ TypeString env t)))
                else if \<not> isExported env sname \<and> \<not> useName then
                  Some (server, Some (ErrorString
                    (''rpc.Register: type '' @ sname @ '' is not exported'')))
                else if serviceMap server sname \<noteq> None then
                  Some (server, Some (ErrorString (''rpc: service already defined: '' @ sname)))
                else
                  (let ms = suitableMethods env t True in
                   if ms = Map.empty then
                     (if suitableMethods env (PtrTo t) False \<noteq> Map.empty then
                        Some (server, Some (ErrorString (''rpc.Register: type '' @ sname @
                          '' has no exported methods of suitable type (hint: pass a pointer to value of that type)'')))
                      else
                        Some (server, Some (ErrorString (''rpc.Register: type '' @ sname @
                          '' has no exported methods of suitable type''))))
                   else
                     Some (server\<lparr>serviceMap := (serviceMap server)
                             (sname \<mapsto> \<lparr>name = sname, rcvr = r, styp = t, methods = ms\<rparr>)\<rparr>,
                           None)))))"

definition Register ::
  "'u reflect_env \<Rightarrow> 'u Server \<Rightarrow> rvalue \<Rightarrow> ('u Server \<times> error option) option"
where
  "Register env server r =
     (case register env server r [] False of
        None \<Rightarrow> None
      | Some (s1, Some err) \<Rightarrow> Some (s1, Some err)
      | Some (s1, None) \<Rightarrow> register env s1 new_pinger service_inner True)"

definition RegisterName ::
  "'u reflect_env \<Rightarrow> 'u Server \<Rightarrow> string \<Rightarrow> rvalue \<Rightarrow> ('u Server \<times> error option) option"
where
  "RegisterName env server nm r =
     (case register env server r nm True of
        None \<Rightarrow> None
      | Some (s1, Some err) \<Rightarrow> Some (s1, Some err)
      | Some (s1, None) \<Rightarrow> register env s1 new_pinger service_inner True)"

section \<open>The codec of one connection\<close>

text \<open>
  The gob decoder is seen as the list of records still to be read. \<open>FBad e\<close> is
  a record whose decoding fails with \<open>e\<close> (a truncated stream gives
  \<open>ErrUnexpectedEOF\<close>); the end of the list is a clean \<open>EOF\<close>. A record of
  another shape than the target is consumed and gives a decode error. Gob leaves out
  zero fields, and decoding leaves the fields it does not receive as they were.
\<close>

datatype frame =
    FRequest string "64 word" "nat option"
  | FAuth string string
  | FValue gvalue
  | FBad error

datatype wire = WResponse Response | WBody gvalue

text \<open>
  \<open>encBuf\<close> holds the records encoded and not yet flushed, \<open>rwc\<close> those that
  reached the transport; \<open>bufErr\<close> is the sticky error of the buffered writer and
  \<open>wbroken\<close> says that the transport refuses writes. A record is taken to fit in
  the buffer, so that only \<open>Flush\<close> writes to the transport.
\<close>

record serverCodec =
  resp :: Response
  req :: Request
  auth :: Auth
  dec :: "frame list"
  encBuf :: "wire list"
  bufErr :: bool
  rwc :: "wire list"
  wbroken :: bool
  addr :: string
  closed :: bool

definition errClosed :: error where
  "errClosed = ErrorString ''use of closed network connection''"

definition errMismatch :: error where
  "errMismatch = ErrorString ''gob: type mismatch''"

definition errEncode :: error where
  "errEncode = ErrorString ''gob: type cannot be encoded''"

definition errWrite :: error where
  "errWrite = ErrorString ''write: broken pipe''"

definition codec_readRequestHeader :: "serverCodec \<Rightarrow> error option \<times> serverCodec" where
  "codec_readRequestHeader c =
     (if closed c then (Some errClosed, c)
      else case dec c of
        [] \<Rightarrow> (Some EOF, c)
      | f # fs \<Rightarrow>
          (case f of
             FRequest sm sq tr \<Rightarrow>
               (None, c\<lparr>req := (req c)\<lparr>
                    req_ServiceMethod := (if sm = [] then req_ServiceMethod (req c) else sm),
                    req_Seq := (if sq = 0 then req_Seq (req c) else sq),
                    req_Trace := (case tr of None \<Rightarrow> req_Trace (req c) | Some t \<Rightarrow> Some t)\<rparr>,
                  dec := fs\<rparr>)
           | FAuth u t \<Rightarrow> (Some errMismatch, c\<lparr>dec := fs\<rparr>)
           | FValue v \<Rightarrow> (Some errMismatch, c\<lparr>dec := fs\<rparr>)
           | FBad e \<Rightarrow> (Some e, c\<lparr>dec := fs\<rparr>)))"

text \<open>\<open>readRequestBody\<close> with its three targets: \<open>&codec.auth\<close>, \<open>nil\<close> and the argument.\<close>

definition readRequestBody_auth :: "serverCodec \<Rightarrow> error option \<times> serverCodec" where
  "readRequestBody_auth c =
     (if closed c then (Some errClosed, c)
      else case dec c of
        [] \<Rightarrow> (Some EOF, c)
      | f # fs \<Rightarrow>
          (case f of
             FAuth u t \<Rightarrow>
               (None, c\<lparr>auth := (auth c)\<lparr>
                    User := (if u = [] then User (auth c) else u),
                    Token := (if t = [] then Token (auth c) else t)\<rparr>,
                  dec := fs\<rparr>)
           | FRequest sm sq tr \<Rightarrow> (Some errMismatch, c\<lparr>dec := fs\<rparr>)
           | FValue v \<Rightarrow> (Some errMismatch, c\<lparr>dec := fs\<rparr>)
           | FBad e \<Rightarrow> (Some e, c\<lparr>dec := fs\<rparr>)))"

definition readRequestBody_nil :: "serverCodec \<Rightarrow> error option \<times> serverCodec" where
  "readRequestBody_nil c =
     (if closed c then (Some errClosed, c)
      else case dec c of
        [] \<Rightarrow> (Some EOF, c)
      | f # fs \<Rightarrow>
          (case f of
             FBad e \<Rightarrow> (Some e, c\<lparr>dec := fs\<rparr>)
           | _ \<Rightarrow> (None, c\<lparr>dec := fs\<rparr>)))"

definition readRequestBody_arg :: "serverCodec \<Rightarrow> (error + gvalue) \<times> serverCodec" where
  "readRequestBody_arg c =
     (if closed c then (Inl errClosed, c)
      else case dec c of
        [] \<Rightarrow> (Inl EOF, c)
      | f # fs \<Rightarrow>
          (case f of
             FValue v \<Rightarrow> (Inr v, c\<lparr>dec := fs\<rparr>)
           | FRequest sm sq tr \<Rightarrow> (Inl errMismatch, c\<lparr>dec := fs\<rparr>)
           | FAuth u t \<Rightarrow> (Inl errMismatch, c\<lparr>dec := fs\<rparr>)
           | FBad e \<Rightarrow> (Inl e, c\<lparr>dec := fs\<rparr>)))"

fun wireOK :: "wire \<Rightarrow> bool" where
  "wireOK (WResponse r) = True"
| "wireOK (WBody v) = gobOK v"

definition Encode :: "wire \<Rightarrow> serverCodec \<Rightarrow> error option \<times> serverCodec" where
  "Encode w c =
     (if \<not> wireOK w then (Some errEncode, c)
      else if bufErr c then (Some errWrite, c)
      else (None, c\<lparr>encBuf := encBuf c @ [w]\<rparr>))"

definition Flush :: "serverCodec \<Rightarrow> error option \<times> serverCodec" where
  "Flush c =
     (if bufErr c then (Some errWrite, c)
      else if encBuf c = [] then (None, c)
      else if closed c \<or> wbroken c then (Some errWrite, c\<lparr>bufErr := True\<rparr>)
      else (None, c\<lparr>rwc := rwc c @ encBuf c, encBuf := []\<rparr>))"

definition close :: "serverCodec \<Rightarrow> serverCodec" where
  "close c = (if closed c then c else c\<lparr>closed := True\<rparr>)"

definition writeResponse :: "serverCodec \<Rightarrow> gvalue \<Rightarrow> error option \<times> serverCodec" where
  "writeResponse c body =
     (case Encode (WResponse (resp c)) c of
        (Some err, c1) \<Rightarrow>
          (case Flush c1 of
             (None, c2) \<Rightarrow> (Some err, close c2)
           | (Some e2, c2) \<Rightarrow> (Some err, c2))
      | (None, c1) \<Rightarrow>
          (case Encode (WBody body) c1 of
             (Some err, c2) \<Rightarrow>
               (case Flush c2 of
                  (None, c3) \<Rightarrow> (Some err, close c3)
                | (Some e3, c3) \<Rightarrow> (Some err, c3))
           | (None, c2) \<Rightarrow> Flush c2))"

definition invalidRequest :: gvalue where
  "invalidRequest = EmptyStruct"

text \<open>
  \<open>sendResponse\<close> runs between \<open>Lock\<close> and \<open>Unlock\<close> of the send mutex; one
  task alone is modelled, so the lock does not appear. A write error is logged and
  dropped.
\<close>

definition sendResponse :: "Context \<Rightarrow> serverCodec \<Rightarrow> gvalue \<Rightarrow> string \<Rightarrow> serverCodec" where
  "sendResponse c codec reply errmsg =
     (let reply1 = (if errmsg \<noteq> [] then invalidRequest else reply);
          ts = \<lparr>resp_ServiceMethod = ctx_ServiceMethod c, resp_Seq = ctx_Seq c,
                resp_Error = errmsg\<rparr>
      in snd (writeResponse (codec\<lparr>resp := ts\<rparr>) reply1))"

section \<open>Handshake\<close>

text \<open>
  The interceptor hooks act on the user state and are logged. The result of
  \<open>handshake\<close> is its error, the codec and the world.
\<close>

definition callAuth ::
  "'u Interceptor \<Rightarrow> Context \<Rightarrow> string \<Rightarrow> string \<Rightarrow> 'u world \<Rightarrow> error option \<times> 'u world"
where
  "callAuth i c a tok w =
     (let (err, u1) = Auth i c a tok (user w)
      in (err, w\<lparr>user := u1, calls := calls w @ [EvAuth c a tok]\<rparr>))"

definition callRate :: "'u Interceptor \<Rightarrow> Context \<Rightarrow> 'u world \<Rightarrow> error option \<times> 'u world" where
  "callRate i c w =
     (let (err, u1) = Rate i c (user w)
      in (err, w\<lparr>user := u1, calls := calls w @ [EvRate c]\<rparr>))"

definition callStat ::
  "'u Interceptor \<Rightarrow> Context \<Rightarrow> gvalue \<Rightarrow> error option \<Rightarrow> 'u world \<Rightarrow> 'u world"
where
  "callStat i c a err w =
     w\<lparr>user := Stat i c a err (user w), calls := calls w @ [EvStat c a err]\<rparr>"

definition handshake ::
  "'u Server \<Rightarrow> serverCodec \<Rightarrow> 'u world \<Rightarrow> error option \<times> serverCodec \<times> 'u world"
where
  "handshake server codec w =
     (if \<not> Handshake server then (None, codec, w)
      else case codec_readRequestHeader codec of
        (Some err, c1) \<Rightarrow> (Some err, c1, w)
      | (None, c1) \<Rightarrow>
          (case readRequestBody_auth c1 of
             (Some err, c2) \<Rightarrow> (Some err, c2, w)
           | (None, c2) \<Rightarrow>
               if req_ServiceMethod (req c2) \<noteq> authServiceMethod then
                 (Some (ErrorString (''rpc: auth service method: '' @ req_ServiceMethod (req c2))),
                  c2, w)
               else
                 (case Interceptor server of
                    None \<Rightarrow> (None, c2, w)
                  | Some i \<Rightarrow>
                      (let cx = NewContext (req_Trace (req c2)) (User (auth c2))
                                  (req_ServiceMethod (req c2)) (req_Seq (req c2));
                           c3 = c2\<lparr>req := (req c2)\<lparr>req_ctx := Some cx\<rparr>\<rparr>;
                           (err, w1) = callAuth i cx (addr c3) (Token (auth c3)) w;
                           errmsg = (case err of None \<Rightarrow> [] | Some e \<Rightarrow> ErrorStr e)
                       in (err, sendResponse cx c3 invalidRequest errmsg, w1)))))"

section \<open>One invocation\<close>

text \<open>
  \<open>service.call\<close>, run by its own task. The trace calls go to the tracing
  library and leave no mark on codec or world. A handler is taken to return.
\<close>

definition call ::
  "'u service \<Rightarrow> Context \<Rightarrow> 'u Server \<Rightarrow> 'u methodType \<Rightarrow> gvalue \<Rightarrow> gvalue \<Rightarrow> serverCodec \<Rightarrow>
   'u world \<Rightarrow> serverCodec \<times> 'u world"
where
  "call s c server mtype argv replyv codec w =
     (let (err, w1) = (case Interceptor server of
                         None \<Rightarrow> (None, w)
                       | Some i \<Rightarrow> callRate i c w);
          errmsg = (case err of None \<Rightarrow> [] | Some e \<Rightarrow> ErrorStr e);
          (replyv2, err2, errmsg2, w2) =
            (if err = None then
               (let ((r, herr), u2) = Func (meth mtype) (rcvr s) c argv replyv (user w1);
                    w2 = w1\<lparr>user := u2,
                            calls := calls w1 @ [EvHandler (mName (meth mtype)) c argv replyv]\<rparr>
                in case herr of
                     None \<Rightarrow> (r, None, errmsg, w2)
                   | Some e \<Rightarrow> (r, Some e, ErrorStr e, w2))
             else (replyv, err, errmsg, w1));
          codec1 = sendResponse c codec replyv2 errmsg2;
          w3 = (case Interceptor server of
                  None \<Rightarrow> w2
                | Some i \<Rightarrow> callStat i c argv err2 w2)
      in (codec1, w3))"

section \<open>The serve loop\<close>

text \<open>\<open>strings.LastIndex(s, ".")\<close> for a one-byte separator; \<open>-1\<close> when absent.\<close>

fun LastIndex :: "string \<Rightarrow> char \<Rightarrow> int" where
  "LastIndex [] sep = -1"
| "LastIndex (x # xs) sep =
     (let r = LastIndex xs sep
      in if 0 \<le> r then r + 1 else if x = sep then 0 else -1)"

text \<open>
  The server's \<open>readRequestHeader\<close> gives the error, or the service and the method
  type it found.
\<close>

definition readRequestHeader ::
  "'u Server \<Rightarrow> serverCodec \<Rightarrow> (error + 'u service \<times> 'u methodType) \<times> serverCodec"
where
  "readRequestHeader server codec =
     (case codec_readRequestHeader codec of
        (Some err, c1) \<Rightarrow>
          if err = EOF \<or> err = ErrUnexpectedEOF then (Inl err, c1)
          else (Inl (ErrorString (''rpc: server cannot decode request: '' @ ErrorStr err)), c1)
      | (None, c1) \<Rightarrow>
          (let sm = req_ServiceMethod (req c1);
               cx = NewContext (req_Trace (req c1)) (User (auth c1)) sm (req_Seq (req c1));
               c2 = c1\<lparr>req := (req c1)\<lparr>req_ctx := Some cx\<rparr>\<rparr>;
               dot = LastIndex sm (CHR ''.'')
           in if dot < 0 then
                (Inl (ErrorString (''rpc: service/method request ill-formed: '' @ sm)), c2)
              else
                (let serviceName = take (nat dot) sm;
                     methodName = drop (nat dot + 1) sm
                 in case serviceMap server serviceName of
                      None \<Rightarrow> (Inl (ErrorString (''rpc: can't find service '' @ sm)), c2)
                    | Some svc \<Rightarrow>
                        (case methods svc methodName of
                           None \<Rightarrow> (Inl (ErrorString (''rpc: can't find method '' @ sm)), c2)
                         | Some mtype \<Rightarrow> (Inr (svc, mtype), c2)))))"

text \<open>
  \<open>readRequest\<close>; \<open>None\<close> is the panic of \<open>Elem()\<close> on a reply type that is
  no pointer, which the registry never holds.
\<close>

definition readRequest ::
  "'u Server \<Rightarrow> serverCodec \<Rightarrow>
   ((error + 'u service \<times> 'u methodType \<times> gvalue \<times> gvalue) \<times> serverCodec) option"
where
  "readRequest server codec =
     (case readRequestHeader server (codec\<lparr>req := zeroRequest\<rparr>) of
        (Inl err, c1) \<Rightarrow>
          if req_ctx (req c1) = None then Some (Inl err, c1)
          else Some (Inl err, snd (readRequestBody_nil c1))
      | (Inr (svc, mtype), c1) \<Rightarrow>
          (case readRequestBody_arg c1 of
             (Inl err, c2) \<Rightarrow> Some (Inl err, c2)
           | (Inr v, c2) \<Rightarrow>
               (let argv = (if isPtr (ArgType mtype) then Ref v else v)
                in case ReplyType mtype of
                     PtrTo t \<Rightarrow> Some (Inr (svc, mtype, argv, Ref (Zero t)), c2)
                   | NonPtr n p \<Rightarrow> None)))"

text \<open>
  A \<open>go service.call(...)\<close> is recorded as a task, in the order of dispatch; what
  the task does is \<open>call\<close>.
\<close>

record 'u task =
  t_service :: "'u service"
  t_ctx :: Context
  t_mtype :: "'u methodType"
  t_argv :: gvalue
  t_replyv :: gvalue

function serveLoop ::
  "'u Server \<Rightarrow> serverCodec \<Rightarrow> 'u task list \<Rightarrow> (serverCodec \<times> 'u task list) option"
where
  "serveLoop server codec tasks =
     (case readRequest server codec of
        None \<Rightarrow> None
      | Some (Inl err, c1) \<Rightarrow>
          (case req_ctx (req c1) of
             None \<Rightarrow> Some (close c1, tasks)
           | Some cx \<Rightarrow>
               (let errmsg = (if req_ServiceMethod (req c1) = authServiceMethod then []
                              else ErrorStr err)
                in serveLoop server (sendResponse cx c1 invalidRequest errmsg) tasks))
      | Some (Inr (svc, mtype, argv, replyv), c1) \<Rightarrow>
          (case req_ctx (req c1) of
             None \<Rightarrow> None
           | Some cx \<Rightarrow>
               serveLoop server c1
                 (tasks @ [\<lparr>t_service = svc, t_ctx = cx, t_mtype = mtype, t_argv = argv,
                            t_replyv = replyv\<rparr>])))"
  by pat_completeness auto

termination serveLoop
proof -
  have snd_dec: "\<And>cx c r e. dec (sendResponse cx c r e) = dec c"
    by (simp add: sendResponse_def writeResponse_def Encode_def Flush_def close_def Let_def
        split: prod.splits option.splits if_splits)
  have crh: "\<And>c r c1. codec_readRequestHeader c = (r, c1) \<Longrightarrow>
      (r = None \<longrightarrow> length (dec c1) < length (dec c)) \<and> (r \<noteq> None \<longrightarrow> req c1 = req c)"
    by (auto simp: codec_readRequestHeader_def split: if_splits list.splits frame.splits)
  have rrh: "\<And>(server :: 'a Server) c res c1.
      readRequestHeader server c = (res, c1) \<Longrightarrow> req_ctx (req c) = None \<Longrightarrow>
      (req_ctx (req c1) \<noteq> None \<longrightarrow> length (dec c1) < length (dec c)) \<and>
      (\<forall>x. res = Inr x \<longrightarrow> req_ctx (req c1) \<noteq> None)"
    unfolding readRequestHeader_def
    by (auto simp: Let_def dest!: crh split: prod.splits option.splits if_splits)
  have nil: "\<And>c r c1. readRequestBody_nil c = (r, c1) \<Longrightarrow>
      length (dec c1) \<le> length (dec c) \<and> req c1 = req c"
    by (auto simp: readRequestBody_nil_def split: if_splits list.splits frame.splits)
  have arg: "\<And>c r c1. readRequestBody_arg c = (r, c1) \<Longrightarrow>
      length (dec c1) \<le> length (dec c) \<and> req c1 = req c"
    by (auto simp: readRequestBody_arg_def split: if_splits list.splits frame.splits)
  have rr: "req_ctx (req c1) \<noteq> None \<longrightarrow> length (dec c1) < length (dec c)"
    if a: "readRequest server c = Some (res, c1)"
    for server :: "'a Server" and c res c1
  proof -
    obtain r0 c0 where h: "readRequestHeader server (c\<lparr>req := zeroRequest\<rparr>) = (r0, c0)"
      by (cases "readRequestHeader server (c\<lparr>req := zeroRequest\<rparr>)")
    have z: "req_ctx (req (c\<lparr>req := zeroRequest\<rparr>)) = None"
      by (simp add: zeroRequest_def)
    from rrh[OF h z]
    have k: "req_ctx (req c0) \<noteq> None \<longrightarrow> length (dec c0) < length (dec c)"
      by simp
    show ?thesis
    proof (cases r0)
      case (Inl err)
      show ?thesis
      proof (cases "req_ctx (req c0) = None")
        case True
        with a h Inl show ?thesis by (simp add: readRequest_def)
      next
        case False
        obtain r2 c2 where n: "readRequestBody_nil c0 = (r2, c2)"
          by (cases "readRequestBody_nil c0")
        from a h Inl False n have "c1 = c2" by (simp add: readRequest_def)
        with nil[OF n] k False show ?thesis by auto
      qed
    next
      case (Inr x)
      with rrh[OF h z] have nz: "req_ctx (req c0) \<noteq> None" by simp
      obtain r2 c2 where n: "readRequestBody_arg c0 = (r2, c2)"
        by (cases "readRequestBody_arg c0")
      from a h Inr n have "c1 = c2"
        by (auto simp: readRequest_def Let_def split: prod.splits sum.splits rtype.splits)
      with arg[OF n] k nz show ?thesis by auto
    qed
  qed
  show ?thesis
    apply (relation "measure (\<lambda>(server, codec, tasks). length (dec codec))")
      apply simp
     apply (clarsimp simp: snd_dec)
     apply (drule rr)
     apply simp
    apply clarsimp
    apply (drule rr)
    apply simp
    done
qed

declare serveLoop.simps [simp del]

text \<open>
  \<open>serveCodec\<close>: the handshake, then the loop, then \<open>close\<close>. The result is
  the codec, the tasks dispatched and the world; \<open>None\<close> is a panic.
\<close>

definition serveCodec ::
  "'u Server \<Rightarrow> serverCodec \<Rightarrow> 'u world \<Rightarrow> (serverCodec \<times> 'u task list \<times> 'u world) option"
where
  "serveCodec server codec w =
     (case handshake server codec w of
        (Some err, c1, w1) \<Rightarrow> Some (close c1, [], w1)
      | (None, c1, w1) \<Rightarrow>
          (case serveLoop server c1 [] of
             None \<Rightarrow> None
           | Some (c2, ts) \<Rightarrow> Some (c2, ts, w1)))"

text \<open>
  A connection: the records the peer sends, whether the transport refuses writes,
  and the peer's address.
\<close>

record conn =
  conn_in :: "frame list"
  conn_broken :: bool
  RemoteAddr :: string

definition newCodec :: "conn \<Rightarrow> serverCodec" where
  "newCodec cn =
     \<lparr>resp = zeroResponse, req = zeroRequest, auth = zeroAuth, dec = conn_in cn,
      encBuf = [], bufErr = False, rwc = [], wbroken = conn_broken cn,
      addr = RemoteAddr cn, closed = False\<rparr>"

definition ServeConn ::
  "'u Server \<Rightarrow> conn \<Rightarrow> 'u world \<Rightarrow> (serverCodec \<times> 'u task list \<times> 'u world) option"
where
  "ServeConn server cn w = serveCodec server (newCodec cn) w"

text \<open>The codec after a header with the given fields has been read and its context built.\<close>

definition headerRead ::
  "serverCodec \<Rightarrow> string \<Rightarrow> 64 word \<Rightarrow> nat option \<Rightarrow> frame list \<Rightarrow> serverCodec"
where
  "headerRead c sm sq tr rest =
     c\<lparr>req := \<lparr>req_ServiceMethod = sm, req_Seq = sq, req_Trace = tr,
                req_ctx = Some (NewContext tr (User (auth c)) sm sq)\<rparr>,
       dec := rest\<rparr>"

section \<open>Example services\<close>

text \<open>
  A small host program for the concrete runs below: a type \<open>Arith\<close> whose pointer
  has the methods \<open>Add\<close>, \<open>Div\<close> (which fails) and \<open>Scale\<close> (which has no
  reply parameter), a type \<open>Echo\<close> with one method on the value, and a type
  \<open>Empty\<close> without methods. The user state is a number that every handler and
  hook changes. \<open>exServer1\<close> is the server after \<open>Register\<close> of the \<open>Arith\<close>
  pointer on a new server; \<open>exInterceptor\<close> refuses every call as busy and accepts
  the token \<open>good\<close> only; \<open>exConn\<close> is a connection over a working transport.
\<close>

definition ArithT :: rtype where
  "ArithT = NonPtr ''Arith'' ''main''"

definition ArgsT :: rtype where
  "ArgsT = NonPtr ''Args'' ''main''"

definition ReplyT :: rtype where
  "ReplyT = NonPtr ''Reply'' ''main''"

definition EchoT :: rtype where
  "EchoT = NonPtr ''Echo'' ''main''"

definition Add :: "nat rmethod" where
  "Add = \<lparr>mName = ''Add'', mPkgPath = [],
          mIn = [PtrTo ArithT, ctxType, PtrTo ArgsT, PtrTo ReplyT], mOut = [typeOfError],
          Func = (\<lambda>p c a r u. ((Ref (Data 3), None), Suc u))\<rparr>"

definition Div :: "nat rmethod" where
  "Div = \<lparr>mName = ''Div'', mPkgPath = [],
          mIn = [PtrTo ArithT, ctxType, ArgsT, PtrTo ReplyT], mOut = [typeOfError],
          Func = (\<lambda>p c a r u. ((Ref (Data 7), Some (ErrorString ''divide by zero'')), Suc u))\<rparr>"

definition Scale :: "nat rmethod" where
  "Scale = \<lparr>mName = ''Scale'', mPkgPath = [],
            mIn = [PtrTo ArithT, ctxType, ArgsT], mOut = [typeOfError],
            Func = (\<lambda>p c a r u. ((r, None), u))\<rparr>"

definition Say :: "nat rmethod" where
  "Say = \<lparr>mName = ''Say'', mPkgPath = [],
          mIn = [EchoT, ctxType, NonPtr ''string'' [], PtrTo (NonPtr ''string'' [])],
          mOut = [typeOfError],
          Func = (\<lambda>p c a r u. ((Ref a, None), u))\<rparr>"

definition exEnv :: "nat reflect_env" where
  "exEnv = \<lparr>Methods = (\<lambda>t. if t = PtrTo ArithT then [Add, Div, Scale]
                          else if t = EchoT \<or> t = PtrTo EchoT then [Say] else []),
            Implements_ctxType = (\<lambda>t. False),
            TypeString = (\<lambda>t. ''?''),
            IsUpperMultiByte = (\<lambda>s. False)\<rparr>"

definition exArith :: rvalue where
  "exArith = Val (PtrTo ArithT) False"

definition exEcho :: rvalue where
  "exEcho = Val EchoT False"

definition exEmpty :: rvalue where
  "exEmpty = Val (PtrTo (NonPtr ''Empty'' ''main'')) False"

definition ArithSvc :: "nat service" where
  "ArithSvc = \<lparr>name = ''Arith'', rcvr = exArith, styp = PtrTo ArithT,
               methods = [''Add'' \<mapsto> \<lparr>meth = Add, ArgType = PtrTo ArgsT, ReplyType = PtrTo ReplyT\<rparr>,
                          ''Div'' \<mapsto> \<lparr>meth = Div, ArgType = ArgsT, ReplyType = PtrTo ReplyT\<rparr>]\<rparr>"

definition innerSvc :: "nat service" where
  "innerSvc = \<lparr>name = ''inner'', rcvr = new_pinger, styp = PtrTo pingerType,
               methods = [''Ping'' \<mapsto> \<lparr>meth = Ping, ArgType = PtrTo (NonPtr [] []),
                                          ReplyType = PtrTo (NonPtr [] [])\<rparr>]\<rparr>"

definition EchoSvc :: "string \<Rightarrow> nat service" where
  "EchoSvc nm = \<lparr>name = nm, rcvr = exEcho, styp = EchoT,
                 methods = [''Say'' \<mapsto> \<lparr>meth = Say, ArgType = NonPtr ''string'' [],
                                         ReplyType = PtrTo (NonPtr ''string'' [])\<rparr>]\<rparr>"

definition exServer1 :: "nat Server" where
  "exServer1 = newServer\<lparr>serviceMap := [''Arith'' \<mapsto> ArithSvc, ''inner'' \<mapsto> innerSvc]\<rparr>"

definition exServer2 :: "string \<Rightarrow> nat Server" where
  "exServer2 nm = exServer1\<lparr>serviceMap := (serviceMap exServer1)(nm \<mapsto> EchoSvc nm)\<rparr>"

definition errInnerDefined :: error where
  "errInnerDefined = ErrorString ''rpc: service already defined: inner''"

definition w0 :: "nat world" where
  "w0 = \<lparr>user = 0, calls = []\<rparr>"

definition exInterceptor :: "nat Interceptor" where
  "exInterceptor =
     \<lparr>Rate = (\<lambda>c u. (Some (ErrorString ''busy''), u + 10)),
      Stat = (\<lambda>c a e u. u + 100),
      Auth = (\<lambda>c a tok u. (if tok = ''good'' then None else Some (ErrorString ''bad token''),
                             u + 1000))\<rparr>"

definition exConn :: "frame list \<Rightarrow> conn" where
  "exConn fs = \<lparr>conn_in = fs, conn_broken = False, RemoteAddr = ''10.0.0.7:4242''\<rparr>"

definition AddMT :: "nat methodType" where
  "AddMT = \<lparr>meth = Add, ArgType = PtrTo ArgsT, ReplyType = PtrTo ReplyT\<rparr>"

definition PingMT :: "nat methodType" where
  "PingMT = \<lparr>meth = Ping, ArgType = PtrTo (NonPtr [] []), ReplyType = PtrTo (NonPtr [] [])\<rparr>"

definition exServerH :: "nat Server" where
  "exServerH = exServer1\<lparr>Handshake := True\<rparr>"

definition exServerHI :: "nat Server" where
  "exServerHI = exServer1\<lparr>Interceptor := Some exInterceptor, Handshake := True\<rparr>"

definition SayMT :: "nat methodType" where
  "SayMT = \<lparr>meth = Say, ArgType = NonPtr ''string'' [], ReplyType = PtrTo (NonPtr ''string'' [])\<rparr>"

section \<open>Facts about registration\<close>

lemma isPtr_PtrTo: "isPtr t \<Longrightarrow> \<exists>e. t = PtrTo e"
  by (cases t) auto

lemma suitableMethods_loop_entry:
  "suitableMethods_loop env xs ms k = Some mt \<Longrightarrow>
     ms k = Some mt \<or>
     (meth mt \<in> set xs \<and> mName (meth mt) = k \<and> mPkgPath (meth mt) = [] \<and>
      length (mIn (meth mt)) = 4 \<and> Implements_ctx env (mIn (meth mt) ! 1) \<and>
      isExportedOrBuiltinType env (mIn (meth mt) ! 2) \<and> isPtr (mIn (meth mt) ! 3) \<and>
      isExportedOrBuiltinType env (mIn (meth mt) ! 3) \<and> mOut (meth mt) = [typeOfError] \<and>
      ArgType mt = mIn (meth mt) ! 2 \<and> ReplyType mt = mIn (meth mt) ! 3)"
proof (induction xs arbitrary: ms)
  case Nil
  then show ?case by simp
next
  case (Cons m rest)
  show ?case
  proof (cases "suitableMethods_loop env (m # rest) ms = suitableMethods_loop env rest ms")
    case True
    with Cons.prems have "suitableMethods_loop env rest ms k = Some mt" by simp
    from Cons.IH[OF this] show ?thesis by auto
  next
    case False
    then have ok: "mPkgPath m = []" "length (mIn m) = 4" "Implements_ctx env (mIn m ! 1)"
      "isExportedOrBuiltinType env (mIn m ! 2)" "isPtr (mIn m ! 3)"
      "isExportedOrBuiltinType env (mIn m ! 3)" "length (mOut m) = 1" "mOut m ! 0 = typeOfError"
      by (auto split: if_splits)
    let ?e = "\<lparr>meth = m, ArgType = mIn m ! 2, ReplyType = mIn m ! 3\<rparr>"
    from ok have eq: "suitableMethods_loop env (m # rest) ms =
        suitableMethods_loop env rest (ms(mName m \<mapsto> ?e))"
      by simp
    from ok(7,8) have out: "mOut m = [typeOfError]"
      by (cases "mOut m") auto
    from Cons.prems eq have "suitableMethods_loop env rest (ms(mName m \<mapsto> ?e)) k = Some mt"
      by simp
    from Cons.IH[OF this] show ?thesis
    proof
      assume "(ms(mName m \<mapsto> ?e)) k = Some mt"
      then show ?thesis using ok out by (auto split: if_splits)
    next
      assume "meth mt \<in> set rest \<and> mName (meth mt) = k \<and> mPkgPath (meth mt) = [] \<and>
      length (mIn (meth mt)) = 4 \<and> Implements_ctx env (mIn (meth mt) ! 1) \<and>
      isExportedOrBuiltinType env (mIn (meth mt) ! 2) \<and> isPtr (mIn (meth mt) ! 3) \<and>
      isExportedOrBuiltinType env (mIn (meth mt) ! 3) \<and> mOut (meth mt) = [typeOfError] \<and>
      ArgType mt = mIn (meth mt) ! 2 \<and> ReplyType mt = mIn (meth mt) ! 3"
      then show ?thesis by simp
    qed
  qed
qed

lemma suitableMethods_entry:
  "suitableMethods env t b k = Some mt \<Longrightarrow>
     meth mt \<in> set (NumMethods env t) \<and> mName (meth mt) = k \<and> mPkgPath (meth mt) = [] \<and>
      length (mIn (meth mt)) = 4 \<and> Implements_ctx env (mIn (meth mt) ! 1) \<and>
      isExportedOrBuiltinType env (mIn (meth mt) ! 2) \<and> isPtr (mIn (meth mt) ! 3) \<and>
      isExportedOrBuiltinType env (mIn (meth mt) ! 3) \<and> mOut (meth mt) = [typeOfError] \<and>
      ArgType mt = mIn (meth mt) ! 2 \<and> ReplyType mt = mIn (meth mt) ! 3"
  unfolding suitableMethods_def
  by (drule suitableMethods_loop_entry) simp

lemma register_success:
  assumes "register env server r nm useName = Some (s1, None)"
  shows "\<exists>t isnil it. r = Val t isnil \<and> Indirect_Type r = Some it \<and>
     (if useName then nm else Name it) \<noteq> [] \<and>
     (useName \<or> isExported env (Name it)) \<and>
     serviceMap server (if useName then nm else Name it) = None \<and>
     suitableMethods env t True \<noteq> Map.empty \<and>
     s1 = server\<lparr>serviceMap := (serviceMap server)
             ((if useName then nm else Name it) \<mapsto>
               \<lparr>name = (if useName then nm else Name it), rcvr = r, styp = t,
                methods = suitableMethods env t True\<rparr>)\<rparr>"
  using assms unfolding register_def
  by (cases r; cases "Indirect_Type r") (auto simp: Let_def split: if_splits)

lemma register_succeeds:
  assumes "Indirect_Type (Val t isnil) = Some it"
    and "(if useName then nm else Name it) \<noteq> []"
    and "useName \<or> isExported env (Name it)"
    and "serviceMap server (if useName then nm else Name it) = None"
    and "suitableMethods env t True \<noteq> Map.empty"
  shows "register env server (Val t isnil) nm useName =
     Some (server\<lparr>serviceMap := (serviceMap server)
             ((if useName then nm else Name it) \<mapsto>
               \<lparr>name = (if useName then nm else Name it), rcvr = Val t isnil, styp = t,
                methods = suitableMethods env t True\<rparr>)\<rparr>, None)"
  using assms unfolding register_def by (auto simp: Let_def)

lemma isExported_not_inner: "isExported env nm \<Longrightarrow> nm \<noteq> service_inner"
  by (auto simp: isExported_def service_inner_def)

lemma register_error_same:
  "register env server r nm useName = Some (s1, Some e) \<Longrightarrow> s1 = server"
  unfolding register_def
  by (cases r; cases "Indirect_Type r") (auto simp: Let_def split: if_splits)

lemma register_inner_present:
  "serviceMap server service_inner \<noteq> None \<Longrightarrow>
   register env server new_pinger service_inner True = Some (server, Some errInnerDefined)"
  by (simp add: register_def new_pinger_def service_inner_def errInnerDefined_def Let_def)

lemma register_adds_inner:
  "register env server new_pinger service_inner True = Some (s1, None) \<Longrightarrow>
   serviceMap s1 service_inner \<noteq> None"
  by (drule register_success) auto

lemma Register_split:
  "Register env server r = Some (s2, None) \<Longrightarrow>
   \<exists>s1. register env server r [] False = Some (s1, None) \<and>
        register env s1 new_pinger service_inner True = Some (s2, None)"
  by (auto simp: Register_def split: option.splits prod.splits)

lemma RegisterName_split:
  "RegisterName env server nm r = Some (s2, None) \<Longrightarrow>
   \<exists>s1. register env server r nm True = Some (s1, None) \<and>
        register env s1 new_pinger service_inner True = Some (s2, None)"
  by (auto simp: RegisterName_def split: option.splits prod.splits)

lemma register_collision_msg:
  assumes "register env server r nm useName =
             Some (s1, Some (ErrorString (''rpc: service already defined: '' @ x)))"
  shows "\<exists>t isnil it. r = Val t isnil \<and> Indirect_Type r = Some it \<and>
           (if useName then nm else Name it) = x \<and> (useName \<or> isExported env x) \<and> s1 = server"
  using assms unfolding register_def
  by (cases r; cases "Indirect_Type r") (auto simp: Let_def split: if_splits)

lemma first_call_inner:
  assumes "Register env s0 r1 = Some (s1, None) \<or> RegisterName env s0 n1 r1 = Some (s1, None)"
  shows "serviceMap s1 service_inner \<noteq> None"
  using assms Register_split[of env s0 r1 s1] RegisterName_split[of env s0 n1 r1 s1]
    register_adds_inner[of env _ s1]
  by blast

lemma second_step_collides:
  assumes "Register env s0 r1 = Some (s1, None) \<or> RegisterName env s0 n1 r1 = Some (s1, None)"
    and "register env s1 r nm b = Some (s', None)"
  shows "register env s' new_pinger service_inner True = Some (s', Some errInnerDefined)"
proof -
  from first_call_inner[OF assms(1)] register_success[OF assms(2)]
  have "serviceMap s' service_inner \<noteq> None"
    by (auto split: if_splits)
  then show ?thesis by (rule register_inner_present)
qed

subsection \<open>The example services, evaluated\<close>

lemma Name_ArithT: "Name ArithT = ''Arith''"
  by (simp add: ArithT_def)

lemma Name_EchoT: "Name EchoT = ''Echo''"
  by (simp add: EchoT_def)

lemma exArith_methods: "suitableMethods exEnv (PtrTo ArithT) True = methods ArithSvc"
  by (simp add: suitableMethods_def NumMethods_def exEnv_def ArithT_def pingerType_def
      Add_def Div_def Scale_def Implements_ctx_def ctxType_def ArgsT_def ReplyT_def
      isExported_def typeOfError_def ArithSvc_def)

lemma inner_methods: "suitableMethods env (PtrTo pingerType) b = methods innerSvc"
  by (simp add: suitableMethods_def NumMethods_def Ping_def Implements_ctx_def typeOfError_def
      innerSvc_def)

lemma exEcho_methods: "suitableMethods exEnv EchoT True = methods (EchoSvc nm)"
  by (simp add: suitableMethods_def NumMethods_def exEnv_def EchoT_def pingerType_def
      Say_def Implements_ctx_def ctxType_def isExported_def typeOfError_def EchoSvc_def)

lemma exEmpty_methods: "suitableMethods exEnv (PtrTo (NonPtr ''Empty'' ''main'')) b = Map.empty"
  by (simp add: suitableMethods_def NumMethods_def exEnv_def ArithT_def EchoT_def pingerType_def)

lemma exEmpty_ptr_methods:
  "suitableMethods exEnv (PtrTo (PtrTo (NonPtr ''Empty'' ''main''))) b = Map.empty"
  by (simp add: suitableMethods_def NumMethods_def exEnv_def ArithT_def EchoT_def pingerType_def)

lemma exRegister_Arith: "Register exEnv newServer exArith = Some (exServer1, None)"
  by (simp add: Register_def register_def exArith_def exArith_methods inner_methods
      newServer_def exServer1_def new_pinger_def service_inner_def Name_ArithT isExported_def
      Let_def ArithSvc_def innerSvc_def)

lemma exRegister_Empty:
  "Register exEnv exServer1 exEmpty =
     Some (exServer1, Some (ErrorString
       ''rpc.Register: type Empty has no exported methods of suitable type''))"
  by (simp add: Register_def register_def exEmpty_def exEmpty_methods exEmpty_ptr_methods
      newServer_def exServer1_def isExported_def Let_def)

lemma exRegisterName_inner:
  "RegisterName exEnv exServer1 ''inner'' exEcho = Some (exServer1, Some errInnerDefined)"
  by (simp add: RegisterName_def register_def exEcho_def EchoT_def errInnerDefined_def
      newServer_def exServer1_def isExported_def Let_def)

section \<open>Facts about the codec\<close>

lemma writeResponse_healthy:
  assumes "\<not> closed c" "\<not> wbroken c" "\<not> bufErr c" "gobOK body"
  shows "writeResponse c body =
     (None, c\<lparr>encBuf := [], rwc := rwc c @ encBuf c @ [WResponse (resp c), WBody body]\<rparr>)"
  using assms by (simp add: writeResponse_def Encode_def Flush_def)

lemma sendResponse_healthy:
  assumes "\<not> closed c" "\<not> wbroken c" "\<not> bufErr c" "errmsg \<noteq> [] \<or> gobOK reply"
  shows "sendResponse cx c reply errmsg =
     c\<lparr>resp := \<lparr>resp_ServiceMethod = ctx_ServiceMethod cx, resp_Seq = ctx_Seq cx,
                 resp_Error = errmsg\<rparr>,
       encBuf := [],
       rwc := rwc c @ encBuf c @
         [WResponse \<lparr>resp_ServiceMethod = ctx_ServiceMethod cx, resp_Seq = ctx_Seq cx,
                     resp_Error = errmsg\<rparr>,
          WBody (if errmsg \<noteq> [] then invalidRequest else reply)]\<rparr>"
proof -
  let ?ts = "\<lparr>resp_ServiceMethod = ctx_ServiceMethod cx, resp_Seq = ctx_Seq cx,
                 resp_Error = errmsg\<rparr>"
  let ?b = "if errmsg \<noteq> [] then invalidRequest else reply"
  from assms have "gobOK ?b" by (auto simp: invalidRequest_def)
  with assms have "writeResponse (c\<lparr>resp := ?ts\<rparr>) ?b =
     (None, c\<lparr>resp := ?ts\<rparr>\<lparr>encBuf := [], rwc := rwc c @ encBuf c @ [WResponse ?ts, WBody ?b]\<rparr>)"
    using writeResponse_healthy[of "c\<lparr>resp := ?ts\<rparr>" ?b] by simp
  then show ?thesis by (simp add: sendResponse_def Let_def)
qed

lemma writeResponse_wire:
  "rwc (snd (writeResponse c body)) = rwc c \<or>
   rwc (snd (writeResponse c body)) = rwc c @ encBuf c @ [WResponse (resp c)] \<or>
   rwc (snd (writeResponse c body)) = rwc c @ encBuf c @ [WResponse (resp c), WBody body]"
  by (simp add: writeResponse_def Encode_def Flush_def close_def)

lemma writeResponse_fields:
  "resp (snd (writeResponse c body)) = resp c \<and> req (snd (writeResponse c body)) = req c \<and>
   auth (snd (writeResponse c body)) = auth c \<and> dec (snd (writeResponse c body)) = dec c \<and>
   addr (snd (writeResponse c body)) = addr c \<and> wbroken (snd (writeResponse c body)) = wbroken c"
  by (simp add: writeResponse_def Encode_def Flush_def close_def)

lemma sendResponse_fields:
  "resp (sendResponse cx c reply errmsg) =
     \<lparr>resp_ServiceMethod = ctx_ServiceMethod cx, resp_Seq = ctx_Seq cx, resp_Error = errmsg\<rparr> \<and>
   req (sendResponse cx c reply errmsg) = req c \<and>
   auth (sendResponse cx c reply errmsg) = auth c \<and>
   dec (sendResponse cx c reply errmsg) = dec c \<and>
   addr (sendResponse cx c reply errmsg) = addr c"
  using writeResponse_fields[of "c\<lparr>resp := \<lparr>resp_ServiceMethod = ctx_ServiceMethod cx,
      resp_Seq = ctx_Seq cx, resp_Error = errmsg\<rparr>\<rparr>" "if errmsg \<noteq> [] then invalidRequest else reply"]
  by (simp add: sendResponse_def Let_def)

lemma sendResponse_closed_placeholder:
  "closed (sendResponse cx c invalidRequest errmsg) = closed c"
  by (simp add: sendResponse_def writeResponse_def Encode_def Flush_def close_def Let_def
      invalidRequest_def)

section \<open>Facts about the lookup\<close>

lemma LastIndex_absent: "(LastIndex s sep < 0) = (sep \<notin> set s)"
  by (induction s) (auto simp: Let_def)

lemma LastIndex_lower: "- 1 \<le> LastIndex s sep"
  by (induction s) (auto simp: Let_def)

lemma LastIndex_split:
  "sep \<notin> set k \<Longrightarrow> LastIndex (a @ sep # k) sep = int (length a)"
proof (induction a)
  case Nil
  then have "LastIndex k sep < 0" by (simp add: LastIndex_absent)
  then show ?case by (simp add: Let_def)
next
  case (Cons x a)
  then show ?case by (simp add: Let_def)
qed

lemma LastIndex_decompose:
  assumes "sep \<in> set s"
  shows "\<exists>a k. s = a @ sep # k \<and> sep \<notin> set k"
  using assms split_list_last[of sep s] by blast

section \<open>Facts about the serve loop\<close>

lemma codec_header_fresh:
  assumes "\<not> closed c" "dec c = FRequest sm sq tr # rest"
  shows "codec_readRequestHeader (c\<lparr>req := zeroRequest\<rparr>) =
     (None, c\<lparr>req := \<lparr>req_ServiceMethod = sm, req_Seq = sq, req_Trace = tr, req_ctx = None\<rparr>,
              dec := rest\<rparr>)"
  using assms
  by (cases tr) (auto simp: codec_readRequestHeader_def zeroRequest_def)

lemma readRequestHeader_illformed:
  assumes "\<not> closed c" "dec c = FRequest sm sq tr # rest" "CHR ''.'' \<notin> set sm"
  shows "readRequestHeader server (c\<lparr>req := zeroRequest\<rparr>) =
     (Inl (ErrorString (''rpc: service/method request ill-formed: '' @ sm)),
      headerRead c sm sq tr rest)"
proof -
  from assms(3) have "LastIndex sm (CHR ''.'') < 0" by (simp add: LastIndex_absent)
  then show ?thesis
    by (simp add: readRequestHeader_def codec_header_fresh[OF assms(1,2)] headerRead_def Let_def)
qed

lemma readRequestHeader_split:
  assumes "\<not> closed c" "dec c = FRequest (a @ CHR ''.'' # k) sq tr # rest" "CHR ''.'' \<notin> set k"
  shows "readRequestHeader server (c\<lparr>req := zeroRequest\<rparr>) =
     ((case serviceMap server a of
         None \<Rightarrow> Inl (ErrorString (''rpc: can't find service '' @ a @ CHR ''.'' # k))
       | Some svc \<Rightarrow>
           (case methods svc k of
              None \<Rightarrow> Inl (ErrorString (''rpc: can't find method '' @ a @ CHR ''.'' # k))
            | Some mt \<Rightarrow> Inr (svc, mt))),
      headerRead c (a @ CHR ''.'' # k) sq tr rest)"
proof -
  from assms(3) have d: "LastIndex (a @ CHR ''.'' # k) (CHR ''.'') = int (length a)"
    by (rule LastIndex_split)
  show ?thesis
    by (simp add: readRequestHeader_def codec_header_fresh[OF assms(1,2)] headerRead_def Let_def d
        split: option.splits)
qed

lemma readRequestBody_nil_open:
  "\<not> closed c \<Longrightarrow> snd (readRequestBody_nil c) = c\<lparr>dec := tl (dec c)\<rparr>"
  by (auto simp: readRequestBody_nil_def split: list.splits frame.splits)

lemma readRequest_error:
  assumes "\<not> closed c" "dec c = FRequest sm sq tr # rest"
    and "readRequestHeader server (c\<lparr>req := zeroRequest\<rparr>) = (Inl err, headerRead c sm sq tr rest)"
  shows "readRequest server c = Some (Inl err, headerRead c sm sq tr (tl rest))"
proof -
  have "\<not> closed (headerRead c sm sq tr rest)" using assms(1) by (simp add: headerRead_def)
  from readRequestBody_nil_open[OF this]
  have "snd (readRequestBody_nil (headerRead c sm sq tr rest)) = headerRead c sm sq tr (tl rest)"
    by (simp add: headerRead_def)
  with assms(3) show ?thesis
    by (simp add: readRequest_def) (simp add: headerRead_def)
qed

lemma serveLoop_error_step:
  assumes "\<not> closed c" "dec c = FRequest sm sq tr # rest"
    and "readRequestHeader server (c\<lparr>req := zeroRequest\<rparr>) = (Inl err, headerRead c sm sq tr rest)"
  shows "serveLoop server c tasks =
     serveLoop server
       (sendResponse (NewContext tr (User (auth c)) sm sq) (headerRead c sm sq tr (tl rest))
          invalidRequest (if sm = authServiceMethod then [] else ErrorStr err))
       tasks"
  by (subst serveLoop.simps) (simp add: readRequest_error[OF assms] headerRead_def)

lemma serveLoop_eof:
  assumes "\<not> closed c" "dec c = []"
  shows "serveLoop server c tasks = Some (close (c\<lparr>req := zeroRequest\<rparr>), tasks)"
  using assms
  by (subst serveLoop.simps)
     (simp add: readRequest_def readRequestHeader_def codec_readRequestHeader_def zeroRequest_def)

lemma serveLoop_dispatch:
  assumes "\<not> closed c" "dec c = FRequest sm sq tr # FValue v # rest"
    and "readRequestHeader server (c\<lparr>req := zeroRequest\<rparr>) =
           (Inr (svc, mt), headerRead c sm sq tr (FValue v # rest))"
    and "ReplyType mt = PtrTo t"
  shows "serveLoop server c tasks =
     serveLoop server (headerRead c sm sq tr rest)
       (tasks @ [\<lparr>t_service = svc, t_ctx = NewContext tr (User (auth c)) sm sq, t_mtype = mt,
                  t_argv = (if isPtr (ArgType mt) then Ref v else v),
                  t_replyv = Ref (Zero t)\<rparr>])"
  using assms(1,4)
  by (subst serveLoop.simps)
     (simp add: readRequest_def assms(3) readRequestBody_arg_def headerRead_def Let_def)

lemma serveLoop_failure:
  assumes "\<not> closed c" and "dec c = FRequest sm sq tr # rest"
    and "readRequestHeader server (c\<lparr>req := zeroRequest\<rparr>) = (Inl err, headerRead c sm sq tr rest)"
    and "c1 = sendResponse (NewContext tr (User (auth c)) sm sq) (headerRead c sm sq tr (tl rest))
                invalidRequest (if sm = authServiceMethod then [] else ErrorStr err)"
  shows "serveLoop server c tasks = serveLoop server c1 tasks \<and>
         resp c1 = \<lparr>resp_ServiceMethod = sm, resp_Seq = sq,
                    resp_Error = (if sm = authServiceMethod then [] else ErrorStr err)\<rparr> \<and>
         dec c1 = tl rest \<and> \<not> closed c1 \<and> auth c1 = auth c \<and>
         (\<not> wbroken c \<and> \<not> bufErr c \<longrightarrow>
            rwc c1 = rwc c @ encBuf c @
              [WResponse \<lparr>resp_ServiceMethod = sm, resp_Seq = sq,
                          resp_Error = (if sm = authServiceMethod then [] else ErrorStr err)\<rparr>,
               WBody invalidRequest] \<and>
            encBuf c1 = [] \<and> \<not> wbroken c1 \<and> \<not> bufErr c1)"
proof -
  let ?cx = "NewContext tr (User (auth c)) sm sq"
  let ?h = "headerRead c sm sq tr (tl rest)"
  let ?m = "if sm = authServiceMethod then [] else ErrorStr err"
  have loop: "serveLoop server c tasks = serveLoop server c1 tasks"
    unfolding assms(4) by (rule serveLoop_error_step[OF assms(1,2,3)])
  have f: "resp c1 = \<lparr>resp_ServiceMethod = sm, resp_Seq = sq, resp_Error = ?m\<rparr>"
    "dec c1 = tl rest" "auth c1 = auth c"
    unfolding assms(4) using sendResponse_fields[of ?cx ?h invalidRequest ?m]
    by (simp_all add: NewContext_def headerRead_def)
  have cl: "\<not> closed c1"
    unfolding assms(4) using assms(1)
    by (simp add: sendResponse_closed_placeholder) (simp add: headerRead_def)
  have w: "rwc c1 = rwc c @ encBuf c @
              [WResponse \<lparr>resp_ServiceMethod = sm, resp_Seq = sq, resp_Error = ?m\<rparr>,
               WBody invalidRequest] \<and>
            encBuf c1 = [] \<and> \<not> wbroken c1 \<and> \<not> bufErr c1"
    if "\<not> wbroken c \<and> \<not> bufErr c"
  proof -
    from that assms(1) have h: "\<not> closed ?h" "\<not> wbroken ?h" "\<not> bufErr ?h"
      "?m \<noteq> [] \<or> gobOK invalidRequest"
      by (simp_all add: headerRead_def invalidRequest_def)
    from that show ?thesis
      unfolding assms(4) sendResponse_healthy[OF h]
      by (simp add: headerRead_def NewContext_def)
  qed
  from loop f cl w show ?thesis by blast
qed

lemma close_fields: "rwc (close c) = rwc c \<and> closed (close c)"
  by (simp add: close_def)

lemma serveLoop_ping_tail:
  assumes "\<not> closed c" and "dec c = [FRequest ''inner.Ping'' sq None, FValue EmptyStruct]"
    and "serviceMap server ''inner'' = Some innerSvc"
  shows "serveLoop server c tasks =
     Some (close ((headerRead c ''inner.Ping'' sq None [])\<lparr>req := zeroRequest\<rparr>),
           tasks @ [\<lparr>t_service = innerSvc,
                     t_ctx = NewContext None (User (auth c)) ''inner.Ping'' sq,
                     t_mtype = PingMT, t_argv = Ref EmptyStruct,
                     t_replyv = Ref (Zero (NonPtr [] []))\<rparr>])"
proof -
  have d: "dec c = FRequest (''inner'' @ CHR ''.'' # ''Ping'') sq None # [FValue EmptyStruct]"
    using assms(2) by simp
  have "readRequestHeader server (c\<lparr>req := zeroRequest\<rparr>) =
      (Inr (innerSvc, PingMT), headerRead c (''inner'' @ CHR ''.'' # ''Ping'') sq None [FValue EmptyStruct])"
    using readRequestHeader_split[OF assms(1) d, of server] assms(3)
    by (simp add: innerSvc_def PingMT_def)
  then have h: "readRequestHeader server (c\<lparr>req := zeroRequest\<rparr>) =
      (Inr (innerSvc, PingMT), headerRead c ''inner.Ping'' sq None (FValue EmptyStruct # []))"
    by simp
  have r: "ReplyType PingMT = PtrTo (NonPtr [] [])" by (simp add: PingMT_def)
  have o: "\<not> closed (headerRead c ''inner.Ping'' sq None [])"
    "dec (headerRead c ''inner.Ping'' sq None []) = []"
    using assms(1) by (simp_all add: headerRead_def)
  show ?thesis
    unfolding serveLoop_dispatch[OF assms(1,2) h r] serveLoop_eof[OF o]
    by (simp add: PingMT_def)
qed

lemma handshake_fresh:
  assumes "Handshake server" and "conn_in cn = FRequest sm sq tr # FAuth u tok # rest"
    and "c2 = (newCodec cn)\<lparr>req := \<lparr>req_ServiceMethod = sm, req_Seq = sq, req_Trace = tr,
                                      req_ctx = None\<rparr>,
                             auth := \<lparr>User = u, Token = tok\<rparr>, dec := rest\<rparr>"
  shows "handshake server (newCodec cn) w =
     (if sm \<noteq> authServiceMethod then
        (Some (ErrorString (''rpc: auth service method: '' @ sm)), c2, w)
      else case Interceptor server of
        None \<Rightarrow> (None, c2, w)
      | Some i \<Rightarrow>
          (let cx = NewContext tr u sm sq;
               c3 = c2\<lparr>req := (req c2)\<lparr>req_ctx := Some cx\<rparr>\<rparr>;
               (err, w1) = callAuth i cx (RemoteAddr cn) tok w
           in (err, sendResponse cx c3 invalidRequest
                      (case err of None \<Rightarrow> [] | Some e \<Rightarrow> ErrorStr e), w1)))"
proof -
  have a: "codec_readRequestHeader (newCodec cn) =
      (None, (newCodec cn)\<lparr>req := \<lparr>req_ServiceMethod = sm, req_Seq = sq, req_Trace = tr,
                                      req_ctx = None\<rparr>, dec := FAuth u tok # rest\<rparr>)"
    using assms(2)
    by (cases tr) (auto simp: codec_readRequestHeader_def newCodec_def zeroRequest_def)
  have b: "readRequestBody_auth ((newCodec cn)\<lparr>req := \<lparr>req_ServiceMethod = sm, req_Seq = sq,
      req_Trace = tr, req_ctx = None\<rparr>, dec := FAuth u tok # rest\<rparr>) = (None, c2)"
    unfolding assms(3)
    by (auto simp: readRequestBody_auth_def newCodec_def zeroAuth_def)
  have c: "req_ServiceMethod (req c2) = sm" "req_Seq (req c2) = sq" "req_Trace (req c2) = tr"
    "User (auth c2) = u" "Token (auth c2) = tok"
    by (simp_all add: assms(3))
  have d: "addr (c2\<lparr>req := (req c2)\<lparr>req_ctx := Some (NewContext tr u sm sq)\<rparr>\<rparr>) = RemoteAddr cn"
    "auth (c2\<lparr>req := (req c2)\<lparr>req_ctx := Some (NewContext tr u sm sq)\<rparr>\<rparr>) = auth c2"
    by (simp_all add: assms(3) newCodec_def)
  show ?thesis
    apply (simp only: handshake_def a b assms(1) not_True_eq_False if_False prod.case
        option.case c)
    apply (simp only: Let_def d c)
    done
qed

lemma then_ping_view:
  assumes "serveLoop server c [] = serveLoop server c1 []"
    and "dec c1 = [FRequest ''inner.Ping'' sq None, FValue EmptyStruct]"
    and "\<not> closed c1"
    and "serviceMap server ''inner'' = Some innerSvc"
  shows "map_option (rwc \<circ> fst) (serveLoop server c []) = Some (rwc c1) \<and>
         map_option (map (mName \<circ> meth \<circ> t_mtype) \<circ> snd) (serveLoop server c []) =
           Some [''Ping'']"
  unfolding assms(1) serveLoop_ping_tail[OF assms(3,2,4)]
  by (simp add: close_fields headerRead_def PingMT_def Ping_def)

lemma then_eof_view:
  assumes "serveLoop server c [] = serveLoop server c1 []"
    and "dec c1 = []" and "\<not> closed c1"
  shows "map_option (rwc \<circ> fst) (serveLoop server c []) = Some (rwc c1) \<and>
         map_option snd (serveLoop server c []) = Some []"
  unfolding assms(1) serveLoop_eof[OF assms(3,2)]
  by (simp add: close_fields)

lemma exCodec_fresh:
  "\<not> closed (newCodec (exConn fs))" "\<not> wbroken (newCodec (exConn fs))"
  "\<not> bufErr (newCodec (exConn fs))" "rwc (newCodec (exConn fs)) = []"
  "encBuf (newCodec (exConn fs)) = []" "dec (newCodec (exConn fs)) = fs"
  by (simp_all add: newCodec_def exConn_def)

lemma exRegister_Echo:
  "Register exEnv exServer1 exEcho = Some (exServer2 ''Echo'', Some errInnerDefined)"
proof -
  have "register exEnv exServer1 (Val EchoT False) [] False =
      Some (exServer1\<lparr>serviceMap := (serviceMap exServer1)
             ((if False then [] else Name EchoT) \<mapsto>
               \<lparr>name = (if False then [] else Name EchoT), rcvr = Val EchoT False, styp = EchoT,
                methods = suitableMethods exEnv EchoT True\<rparr>)\<rparr>, None)"
    by (rule register_succeeds[where it = EchoT])
       (simp_all add: exEcho_methods[of "[]"] EchoSvc_def Name_EchoT,
        simp_all add: EchoT_def isExported_def exServer1_def newServer_def)
  then have a: "register exEnv exServer1 exEcho [] False = Some (exServer2 ''Echo'', None)"
    by (simp add: exEcho_def exServer2_def Name_EchoT exEcho_methods[of "''Echo''"] EchoSvc_def)
  have "serviceMap (exServer2 ''Echo'') service_inner \<noteq> None"
    by (simp add: exServer2_def exServer1_def service_inner_def)
  from register_inner_present[OF this, of exEnv] a show ?thesis
    by (simp add: Register_def)
qed

lemma exRegisterName_Calc:
  "RegisterName exEnv exServer1 ''Calc'' exEcho = Some (exServer2 ''Calc'', Some errInnerDefined)"
proof -
  have "register exEnv exServer1 (Val EchoT False) ''Calc'' True =
      Some (exServer1\<lparr>serviceMap := (serviceMap exServer1)
             ((if True then ''Calc'' else Name EchoT) \<mapsto>
               \<lparr>name = (if True then ''Calc'' else Name EchoT), rcvr = Val EchoT False,
                styp = EchoT, methods = suitableMethods exEnv EchoT True\<rparr>)\<rparr>, None)"
    by (rule register_succeeds[where it = EchoT])
       (simp_all add: exEcho_methods[of "[]"] EchoSvc_def,
        simp_all add: EchoT_def exServer1_def newServer_def)
  then have a: "register exEnv exServer1 exEcho ''Calc'' True = Some (exServer2 ''Calc'', None)"
    by (simp add: exEcho_def exServer2_def exEcho_methods[of "''Calc''"] EchoSvc_def)
  have "serviceMap (exServer2 ''Calc'') service_inner \<noteq> None"
    by (simp add: exServer2_def exServer1_def service_inner_def)
  from register_inner_present[OF this, of exEnv] a show ?thesis
    by (simp add: RegisterName_def)
qed

lemma readRequestHeader_found:
  assumes "serviceMap server nm = Some svc" and "methods svc k = Some mt"
    and "CHR ''.'' \<notin> set k" and "\<not> closed c"
    and "dec c = FRequest (nm @ CHR ''.'' # k) sq tr # rest"
  shows "fst (readRequestHeader server (c\<lparr>req := zeroRequest\<rparr>)) = Inr (svc, mt)"
  by (simp add: readRequestHeader_split[OF assms(4,5,3)] assms(1,2))

section \<open>Claims about registration\<close>

text \<open>
  C2. When \<open>Register(R)\<close> succeeds, the service stored under the receiver's type
  name holds \<open>R\<close>, and every entry of its method map is a method of \<open>R\<close>'s method
  set, stored under its own name, with exactly four inputs counting the receiver, a
  first non-receiver input that implements the context interface, an argument of
  exported or built-in type, a reply that is a pointer to an exported or built-in
  type, and the single return type \<open>error\<close>. No method of \<open>R\<close> that fails one
  of these rules is the method of an entry of the map.
\<close>

theorem register_filter:
  assumes "Register env server r = Some (s2, None)"
  shows "\<exists>t isnil it svc. r = Val t isnil \<and> Indirect_Type r = Some it \<and>
     serviceMap s2 (Name it) = Some svc \<and> rcvr svc = r \<and>
     (\<forall>k mt. methods svc k = Some mt \<longrightarrow>
        meth mt \<in> set (NumMethods env t) \<and> mName (meth mt) = k \<and>
        length (mIn (meth mt)) = 4 \<and>
        Implements_ctx env (mIn (meth mt) ! 1) \<and>
        isExportedOrBuiltinType env (mIn (meth mt) ! 2) \<and>
        (\<exists>e. mIn (meth mt) ! 3 = PtrTo e \<and> isExportedOrBuiltinType env e) \<and>
        mOut (meth mt) = [typeOfError]) \<and>
     (\<forall>m \<in> set (NumMethods env t).
        length (mIn m) \<noteq> 4 \<or> \<not> Implements_ctx env (mIn m ! 1) \<or>
        \<not> isExportedOrBuiltinType env (mIn m ! 2) \<or> \<not> isPtr (mIn m ! 3) \<or>
        \<not> isExportedOrBuiltinType env (mIn m ! 3) \<or> mOut m \<noteq> [typeOfError] \<longrightarrow>
        (\<forall>k mt. methods svc k = Some mt \<longrightarrow> meth mt \<noteq> m))"
proof -
  from Register_split[OF assms] obtain s1 where
    a: "register env server r [] False = Some (s1, None)" and
    b: "register env s1 new_pinger service_inner True = Some (s2, None)"
    by blast
  from register_success[OF a] obtain t isnil it where
    r: "r = Val t isnil" and it: "Indirect_Type r = Some it" and
    ex: "isExported env (Name it)" and
    s1: "s1 = server\<lparr>serviceMap := (serviceMap server)(Name it \<mapsto>
           \<lparr>name = Name it, rcvr = r, styp = t, methods = suitableMethods env t True\<rparr>)\<rparr>"
    by auto
  from register_success[OF b] have
    s2: "s2 = s1\<lparr>serviceMap := (serviceMap s1)(service_inner \<mapsto>
           \<lparr>name = service_inner, rcvr = new_pinger, styp = PtrTo pingerType,
            methods = suitableMethods env (PtrTo pingerType) True\<rparr>)\<rparr>"
    by (auto simp: new_pinger_def)
  let ?svc = "\<lparr>name = Name it, rcvr = r, styp = t, methods = suitableMethods env t True\<rparr>"
  from isExported_not_inner[OF ex] s1 s2 have m: "serviceMap s2 (Name it) = Some ?svc"
    by simp
  have entry: "meth mt \<in> set (NumMethods env t) \<and> mName (meth mt) = k \<and>
        length (mIn (meth mt)) = 4 \<and>
        Implements_ctx env (mIn (meth mt) ! 1) \<and>
        isExportedOrBuiltinType env (mIn (meth mt) ! 2) \<and>
        isPtr (mIn (meth mt) ! 3) \<and> isExportedOrBuiltinType env (mIn (meth mt) ! 3) \<and>
        mOut (meth mt) = [typeOfError]"
    if "methods ?svc k = Some mt" for k mt
  proof -
    from that have "suitableMethods env t True k = Some mt" by simp
    from suitableMethods_entry[OF this] show ?thesis by simp
  qed
  have p1: "\<forall>k mt. methods ?svc k = Some mt \<longrightarrow>
        meth mt \<in> set (NumMethods env t) \<and> mName (meth mt) = k \<and>
        length (mIn (meth mt)) = 4 \<and>
        Implements_ctx env (mIn (meth mt) ! 1) \<and>
        isExportedOrBuiltinType env (mIn (meth mt) ! 2) \<and>
        (\<exists>e. mIn (meth mt) ! 3 = PtrTo e \<and> isExportedOrBuiltinType env e) \<and>
        mOut (meth mt) = [typeOfError]"
  proof (intro allI impI)
    fix k mt
    assume "methods ?svc k = Some mt"
    note f = entry[OF this]
    from f isPtr_PtrTo obtain e' where p: "mIn (meth mt) ! 3 = PtrTo e'" by blast
    with f have "isExportedOrBuiltinType env e'" by simp
    with f p show "meth mt \<in> set (NumMethods env t) \<and> mName (meth mt) = k \<and>
        length (mIn (meth mt)) = 4 \<and>
        Implements_ctx env (mIn (meth mt) ! 1) \<and>
        isExportedOrBuiltinType env (mIn (meth mt) ! 2) \<and>
        (\<exists>e. mIn (meth mt) ! 3 = PtrTo e \<and> isExportedOrBuiltinType env e) \<and>
        mOut (meth mt) = [typeOfError]"
      by blast
  qed
  have p2: "\<forall>m \<in> set (NumMethods env t).
        length (mIn m) \<noteq> 4 \<or> \<not> Implements_ctx env (mIn m ! 1) \<or>
        \<not> isExportedOrBuiltinType env (mIn m ! 2) \<or> \<not> isPtr (mIn m ! 3) \<or>
        \<not> isExportedOrBuiltinType env (mIn m ! 3) \<or> mOut m \<noteq> [typeOfError] \<longrightarrow>
        (\<forall>k mt. methods ?svc k = Some mt \<longrightarrow> meth mt \<noteq> m)"
    using entry by blast
  from r it m p1 p2 show ?thesis
    by (intro exI[of _ t] exI[of _ isnil] exI[of _ it] exI[of _ ?svc]) simp
qed

theorem register_filter_witness:
  "Register exEnv newServer exArith = Some (exServer1, None) \<and>
   serviceMap exServer1 ''Arith'' = Some ArithSvc \<and>
   methods ArithSvc ''Scale'' = None \<and>
   map_option meth (methods ArithSvc ''Add'') = Some Add \<and>
   length (mIn Add) = 4 \<and> Implements_ctx exEnv (mIn Add ! 1) \<and>
   isExportedOrBuiltinType exEnv (mIn Add ! 2) \<and> mOut Add = [typeOfError] \<and>
   Scale \<in> set (NumMethods exEnv (PtrTo ArithT)) \<and> length (mIn Scale) \<noteq> 4 \<and>
   map_option meth (methods ArithSvc ''Add'') \<noteq> Some Scale \<and>
   map_option meth (methods ArithSvc ''Div'') \<noteq> Some Scale"
proof -
  from register_filter[OF exRegister_Arith] obtain svc where
    a: "serviceMap exServer1 ''Arith'' = Some svc" and
    b: "\<forall>k mt. methods svc k = Some mt \<longrightarrow>
        meth mt \<in> set (NumMethods exEnv (PtrTo ArithT)) \<and> mName (meth mt) = k \<and>
        length (mIn (meth mt)) = 4 \<and>
        Implements_ctx exEnv (mIn (meth mt) ! 1) \<and>
        isExportedOrBuiltinType exEnv (mIn (meth mt) ! 2) \<and>
        (\<exists>e. mIn (meth mt) ! 3 = PtrTo e \<and> isExportedOrBuiltinType exEnv e) \<and>
        mOut (meth mt) = [typeOfError]" and
    n: "\<forall>m \<in> set (NumMethods exEnv (PtrTo ArithT)).
        length (mIn m) \<noteq> 4 \<or> \<not> Implements_ctx exEnv (mIn m ! 1) \<or>
        \<not> isExportedOrBuiltinType exEnv (mIn m ! 2) \<or> \<not> isPtr (mIn m ! 3) \<or>
        \<not> isExportedOrBuiltinType exEnv (mIn m ! 3) \<or> mOut m \<noteq> [typeOfError] \<longrightarrow>
        (\<forall>k mt. methods svc k = Some mt \<longrightarrow> meth mt \<noteq> m)"
    by (auto simp: exArith_def Name_ArithT)
  from a have svc: "svc = ArithSvc" by (simp add: exServer1_def)
  have c: "methods ArithSvc ''Add'' =
      Some \<lparr>meth = Add, ArgType = PtrTo ArgsT, ReplyType = PtrTo ReplyT\<rparr>"
    and c': "methods ArithSvc ''Div'' =
      Some \<lparr>meth = Div, ArgType = ArgsT, ReplyType = PtrTo ReplyT\<rparr>"
    and d: "methods ArithSvc ''Scale'' = None"
    by (simp_all add: ArithSvc_def)
  from b c svc have e: "length (mIn Add) = 4 \<and> Implements_ctx exEnv (mIn Add ! 1) \<and>
      isExportedOrBuiltinType exEnv (mIn Add ! 2) \<and> mOut Add = [typeOfError]"
    by fastforce
  have s: "Scale \<in> set (NumMethods exEnv (PtrTo ArithT))" "length (mIn Scale) \<noteq> 4"
    by (simp_all add: NumMethods_def exEnv_def ArithT_def pingerType_def Scale_def)
  from n s svc have "\<forall>k mt. methods ArithSvc k = Some mt \<longrightarrow> meth mt \<noteq> Scale"
    by blast
  with c c' have f: "Add \<noteq> Scale" "Div \<noteq> Scale" by fastforce+
  from a c c' d e f s svc exRegister_Arith show ?thesis by simp
qed

text \<open>
  C8 fails as stated: a second call whose own receiver cannot be registered returns
  that receiver's error, not the collision on \<open>inner\<close>. Here the second receiver
  has no suitable method.
\<close>

theorem second_register_other_error:
  "Register exEnv newServer exArith = Some (exServer1, None) \<and>
   Register exEnv exServer1 exEmpty =
     Some (exServer1, Some (ErrorString
       ''rpc.Register: type Empty has no exported methods of suitable type'')) \<and>
   ErrorString ''rpc.Register: type Empty has no exported methods of suitable type'' \<noteq>
     ErrorString ''rpc: service already defined: inner''"
  using exRegister_Arith exRegister_Empty by simp

text \<open>
  C8, amended. After one successful \<open>Register\<close> or \<open>RegisterName\<close>, no later call
  of either form returns a nil error. When the later call's own receiver passes every
  check of \<open>register\<close> (it is no nil value, its service name is not empty, exported
  for \<open>Register\<close>, not yet in the map, and it has a suitable method), the error is
  \<open>rpc: service already defined: inner\<close>.
\<close>

theorem second_register_collides:
  assumes "Register env s0 r1 = Some (s1, None) \<or> RegisterName env s0 n1 r1 = Some (s1, None)"
  shows "Register env s1 r2 \<noteq> Some (s2, None) \<and>
         RegisterName env s1 n2 r2 \<noteq> Some (s2, None) \<and>
         (Indirect_Type (Val t isnil) = Some it \<and> Name it \<noteq> [] \<and> isExported env (Name it) \<and>
          serviceMap s1 (Name it) = None \<and> suitableMethods env t True \<noteq> Map.empty \<longrightarrow>
            map_option snd (Register env s1 (Val t isnil)) =
              Some (Some (ErrorString ''rpc: service already defined: inner''))) \<and>
         (Indirect_Type (Val t isnil) = Some it \<and> n2 \<noteq> [] \<and>
          serviceMap s1 n2 = None \<and> suitableMethods env t True \<noteq> Map.empty \<longrightarrow>
            map_option snd (RegisterName env s1 n2 (Val t isnil)) =
              Some (Some (ErrorString ''rpc: service already defined: inner'')))"
proof -
  note step = second_step_collides[OF assms]
  have a: "Register env s1 r2 \<noteq> Some (s2, None)"
  proof
    assume "Register env s1 r2 = Some (s2, None)"
    from Register_split[OF this] step show False by fastforce
  qed
  have b: "RegisterName env s1 n2 r2 \<noteq> Some (s2, None)"
  proof
    assume "RegisterName env s1 n2 r2 = Some (s2, None)"
    from RegisterName_split[OF this] step show False by fastforce
  qed
  have c: "map_option snd (Register env s1 (Val t isnil)) =
              Some (Some (ErrorString ''rpc: service already defined: inner''))"
    if h: "Indirect_Type (Val t isnil) = Some it \<and> Name it \<noteq> [] \<and> isExported env (Name it) \<and>
          serviceMap s1 (Name it) = None \<and> suitableMethods env t True \<noteq> Map.empty"
  proof -
    from h register_succeeds[of t isnil it False "[]" env s1]
    obtain s' where r: "register env s1 (Val t isnil) [] False = Some (s', None)" by auto
    from step[OF r] r show ?thesis by (simp add: Register_def errInnerDefined_def)
  qed
  have d: "map_option snd (RegisterName env s1 n2 (Val t isnil)) =
              Some (Some (ErrorString ''rpc: service already defined: inner''))"
    if h: "Indirect_Type (Val t isnil) = Some it \<and> n2 \<noteq> [] \<and>
          serviceMap s1 n2 = None \<and> suitableMethods env t True \<noteq> Map.empty"
  proof -
    from h register_succeeds[of t isnil it True n2 env s1]
    obtain s' where r: "register env s1 (Val t isnil) n2 True = Some (s', None)" by auto
    from step[OF r] r show ?thesis by (simp add: RegisterName_def errInnerDefined_def)
  qed
  from a b c d show ?thesis by blast
qed

theorem second_register_collides_witness:
  "Register exEnv newServer exArith = Some (exServer1, None) \<and>
   Register exEnv exServer1 exEcho \<noteq> Some (exServer1, None) \<and>
   map_option snd (Register exEnv exServer1 exEcho) =
     Some (Some (ErrorString ''rpc: service already defined: inner'')) \<and>
   map_option snd (RegisterName exEnv exServer1 ''Calc'' exEcho) =
     Some (Some (ErrorString ''rpc: service already defined: inner''))"
proof -
  have h1: "Indirect_Type (Val EchoT False) = Some EchoT \<and> Name EchoT \<noteq> [] \<and>
      isExported exEnv (Name EchoT) \<and> serviceMap exServer1 (Name EchoT) = None \<and>
      suitableMethods exEnv EchoT True \<noteq> Map.empty"
    by (simp add: exEcho_methods[of "[]"] EchoSvc_def)
       (simp add: EchoT_def isExported_def exServer1_def newServer_def)
  have h2: "Indirect_Type (Val EchoT False) = Some EchoT \<and> ''Calc'' \<noteq> [] \<and>
      serviceMap exServer1 ''Calc'' = None \<and> suitableMethods exEnv EchoT True \<noteq> Map.empty"
    by (simp add: exEcho_methods[of "[]"] EchoSvc_def)
       (simp add: EchoT_def exServer1_def newServer_def)
  from second_register_collides[where env = exEnv and ?s0.0 = newServer and ?r1.0 = exArith
      and ?s1.0 = exServer1 and ?r2.0 = exEcho and ?s2.0 = exServer1 and ?n2.0 = "''Calc''"
      and t = EchoT and isnil = False and it = EchoT, OF disjI1[OF exRegister_Arith]] h1 h2
  show ?thesis using exRegister_Arith by (simp add: exEcho_def)
qed

section \<open>Claims about a failed registration\<close>

text \<open>
  C9 fails as stated for \<open>RegisterName\<close> with the name \<open>inner\<close>: the call returns
  the error \<open>rpc: service already defined: inner\<close> from its own first step and the
  server is unchanged, so the receiver's service has not been added; \<open>inner\<close> is
  still the pinger.
\<close>

theorem failed_register_inner_not_added:
  "Register exEnv newServer exArith = Some (exServer1, None) \<and>
   RegisterName exEnv exServer1 ''inner'' exEcho =
     Some (exServer1, Some (ErrorString ''rpc: service already defined: inner'')) \<and>
   dom (serviceMap exServer1) = {''Arith'', ''inner''} \<and>
   map_option rcvr (serviceMap exServer1 ''Arith'') = Some exArith \<and>
   map_option rcvr (serviceMap exServer1 ''inner'') = Some new_pinger \<and>
   exArith \<noteq> exEcho \<and> new_pinger \<noteq> exEcho"
  using exRegister_Arith exRegisterName_inner
  by (auto simp: errInnerDefined_def exServer1_def newServer_def ArithSvc_def innerSvc_def
      exArith_def exEcho_def new_pinger_def EchoT_def split: if_splits)

text \<open>
  C9, amended. When \<open>Register(R2)\<close>, or \<open>RegisterName(n2, R2)\<close> with a name
  other than \<open>inner\<close>, returns the error \<open>rpc: service already defined: inner\<close>,
  the server it leaves holds a service for \<open>R2\<close> under its name, which was not in
  the map before; the method map of that service is the non-empty set of \<open>R2\<close>'s
  suitable methods, and a request naming the service and one of these methods is
  resolved to it by \<open>readRequestHeader\<close>.
\<close>

theorem failed_register_keeps_service:
  "(Register env s1 r2 = Some (s2, Some (ErrorString ''rpc: service already defined: inner'')) \<longrightarrow>
      (\<exists>t isnil it svc. r2 = Val t isnil \<and> Indirect_Type r2 = Some it \<and>
         serviceMap s1 (Name it) = None \<and> serviceMap s2 (Name it) = Some svc \<and>
         rcvr svc = r2 \<and> methods svc = suitableMethods env t True \<and>
         methods svc \<noteq> Map.empty \<and>
         (\<forall>k mt c sq tr rest.
            methods svc k = Some mt \<and> CHR ''.'' \<notin> set k \<and> \<not> closed c \<and>
            dec c = FRequest (Name it @ CHR ''.'' # k) sq tr # rest \<longrightarrow>
            fst (readRequestHeader s2 (c\<lparr>req := zeroRequest\<rparr>)) = Inr (svc, mt)))) \<and>
   (RegisterName env s1 n2 r2 =
      Some (s2, Some (ErrorString ''rpc: service already defined: inner'')) \<and>
    n2 \<noteq> ''inner'' \<longrightarrow>
      (\<exists>t isnil svc. r2 = Val t isnil \<and>
         serviceMap s1 n2 = None \<and> serviceMap s2 n2 = Some svc \<and>
         rcvr svc = r2 \<and> methods svc = suitableMethods env t True \<and>
         methods svc \<noteq> Map.empty \<and>
         (\<forall>k mt c sq tr rest.
            methods svc k = Some mt \<and> CHR ''.'' \<notin> set k \<and> \<not> closed c \<and>
            dec c = FRequest (n2 @ CHR ''.'' # k) sq tr # rest \<longrightarrow>
            fst (readRequestHeader s2 (c\<lparr>req := zeroRequest\<rparr>)) = Inr (svc, mt))))"
proof (rule conjI; rule impI)
  assume a: "Register env s1 r2 =
            Some (s2, Some (ErrorString ''rpc: service already defined: inner''))"
  have "\<exists>t isnil it svc. r2 = Val t isnil \<and> Indirect_Type r2 = Some it \<and>
             serviceMap s1 (Name it) = None \<and> serviceMap s2 (Name it) = Some svc \<and>
             rcvr svc = r2 \<and> methods svc = suitableMethods env t True \<and>
             methods svc \<noteq> Map.empty"
  proof (cases "register env s1 r2 [] False")
    case None
    with a show ?thesis by (simp add: Register_def)
  next
    case (Some p)
    obtain sm eo where p: "p = (sm, eo)" by (cases p)
    show ?thesis
    proof (cases eo)
      case None
      with Some p have ok: "register env s1 r2 [] False = Some (sm, None)" by simp
      with a have "register env sm new_pinger service_inner True =
          Some (s2, Some (ErrorString ''rpc: service already defined: inner''))"
        by (simp add: Register_def)
      from register_error_same[OF this] have "s2 = sm" .
      with register_success[OF ok] show ?thesis by auto
    next
      case (Some e)
      with \<open>register env s1 r2 [] False = Some p\<close> p a
      have "register env s1 r2 [] False =
          Some (s2, Some (ErrorString (''rpc: service already defined: '' @ ''inner'')))"
        by (simp add: Register_def)
      from register_collision_msg[OF this] have "isExported env ''inner''" by auto
      then show ?thesis by (simp add: isExported_def)
    qed
  qed
  then obtain t isnil it svc where f: "r2 = Val t isnil" "Indirect_Type r2 = Some it"
    "serviceMap s1 (Name it) = None" "serviceMap s2 (Name it) = Some svc"
    "rcvr svc = r2" "methods svc = suitableMethods env t True" "methods svc \<noteq> Map.empty"
    by blast
  have "\<forall>k mt c sq tr rest.
            methods svc k = Some mt \<and> CHR ''.'' \<notin> set k \<and> \<not> closed c \<and>
            dec c = FRequest (Name it @ CHR ''.'' # k) sq tr # rest \<longrightarrow>
            fst (readRequestHeader s2 (c\<lparr>req := zeroRequest\<rparr>)) = Inr (svc, mt)"
    using readRequestHeader_found[OF f(4)] by blast
  with f show "\<exists>t isnil it svc. r2 = Val t isnil \<and> Indirect_Type r2 = Some it \<and>
         serviceMap s1 (Name it) = None \<and> serviceMap s2 (Name it) = Some svc \<and>
         rcvr svc = r2 \<and> methods svc = suitableMethods env t True \<and>
         methods svc \<noteq> Map.empty \<and>
         (\<forall>k mt c sq tr rest.
            methods svc k = Some mt \<and> CHR ''.'' \<notin> set k \<and> \<not> closed c \<and>
            dec c = FRequest (Name it @ CHR ''.'' # k) sq tr # rest \<longrightarrow>
            fst (readRequestHeader s2 (c\<lparr>req := zeroRequest\<rparr>)) = Inr (svc, mt))"
    by blast
next
  assume "RegisterName env s1 n2 r2 =
            Some (s2, Some (ErrorString ''rpc: service already defined: inner'')) \<and>
          n2 \<noteq> ''inner''"
  then have a: "RegisterName env s1 n2 r2 =
            Some (s2, Some (ErrorString ''rpc: service already defined: inner''))"
    and n: "n2 \<noteq> ''inner''" by auto
  have "\<exists>t isnil svc. r2 = Val t isnil \<and>
             serviceMap s1 n2 = None \<and> serviceMap s2 n2 = Some svc \<and>
             rcvr svc = r2 \<and> methods svc = suitableMethods env t True \<and>
             methods svc \<noteq> Map.empty"
  proof (cases "register env s1 r2 n2 True")
    case None
    with a show ?thesis by (simp add: RegisterName_def)
  next
    case (Some p)
    obtain sm eo where p: "p = (sm, eo)" by (cases p)
    show ?thesis
    proof (cases eo)
      case None
      with Some p have ok: "register env s1 r2 n2 True = Some (sm, None)" by simp
      with a have "register env sm new_pinger service_inner True =
          Some (s2, Some (ErrorString ''rpc: service already defined: inner''))"
        by (simp add: RegisterName_def)
      from register_error_same[OF this] have "s2 = sm" .
      with register_success[OF ok] show ?thesis by auto
    next
      case (Some e)
      with \<open>register env s1 r2 n2 True = Some p\<close> p a
      have "register env s1 r2 n2 True =
          Some (s2, Some (ErrorString (''rpc: service already defined: '' @ ''inner'')))"
        by (simp add: RegisterName_def)
      from register_collision_msg[OF this] n show ?thesis by auto
    qed
  qed
  then obtain t isnil svc where f: "r2 = Val t isnil"
    "serviceMap s1 n2 = None" "serviceMap s2 n2 = Some svc"
    "rcvr svc = r2" "methods svc = suitableMethods env t True" "methods svc \<noteq> Map.empty"
    by blast
  have "\<forall>k mt c sq tr rest.
            methods svc k = Some mt \<and> CHR ''.'' \<notin> set k \<and> \<not> closed c \<and>
            dec c = FRequest (n2 @ CHR ''.'' # k) sq tr # rest \<longrightarrow>
            fst (readRequestHeader s2 (c\<lparr>req := zeroRequest\<rparr>)) = Inr (svc, mt)"
    using readRequestHeader_found[OF f(3)] by blast
  with f show "\<exists>t isnil svc. r2 = Val t isnil \<and>
         serviceMap s1 n2 = None \<and> serviceMap s2 n2 = Some svc \<and>
         rcvr svc = r2 \<and> methods svc = suitableMethods env t True \<and>
         methods svc \<noteq> Map.empty \<and>
         (\<forall>k mt c sq tr rest.
            methods svc k = Some mt \<and> CHR ''.'' \<notin> set k \<and> \<not> closed c \<and>
            dec c = FRequest (n2 @ CHR ''.'' # k) sq tr # rest \<longrightarrow>
            fst (readRequestHeader s2 (c\<lparr>req := zeroRequest\<rparr>)) = Inr (svc, mt))"
    by blast
qed

theorem failed_register_keeps_service_witness:
  "Register exEnv exServer1 exEcho =
     Some (exServer2 ''Echo'', Some (ErrorString ''rpc: service already defined: inner'')) \<and>
   serviceMap exServer1 ''Echo'' = None \<and>
   serviceMap (exServer2 ''Echo'') ''Echo'' = Some (EchoSvc ''Echo'') \<and>
   fst (readRequestHeader (exServer2 ''Echo'')
          ((newCodec (exConn [FRequest ''Echo.Say'' 1 None, FValue (Data 5)]))
             \<lparr>req := zeroRequest\<rparr>)) = Inr (EchoSvc ''Echo'', SayMT) \<and>
   RegisterName exEnv exServer1 ''Calc'' exEcho =
     Some (exServer2 ''Calc'', Some (ErrorString ''rpc: service already defined: inner'')) \<and>
   serviceMap exServer1 ''Calc'' = None \<and>
   serviceMap (exServer2 ''Calc'') ''Calc'' = Some (EchoSvc ''Calc'') \<and>
   fst (readRequestHeader (exServer2 ''Calc'')
          ((newCodec (exConn [FRequest ''Calc.Say'' 1 None, FValue (Data 5)]))
             \<lparr>req := zeroRequest\<rparr>)) = Inr (EchoSvc ''Calc'', SayMT)"
proof -
  define c where "c = newCodec (exConn [FRequest ''Echo.Say'' 1 None, FValue (Data 5)])"
  define d where "d = newCodec (exConn [FRequest ''Calc.Say'' 1 None, FValue (Data 5)])"
  have r1: "Register exEnv exServer1 exEcho =
     Some (exServer2 ''Echo'', Some (ErrorString ''rpc: service already defined: inner''))"
    using exRegister_Echo by (simp add: errInnerDefined_def)
  have r2: "RegisterName exEnv exServer1 ''Calc'' exEcho =
     Some (exServer2 ''Calc'', Some (ErrorString ''rpc: service already defined: inner'')) \<and>
     ''Calc'' \<noteq> ''inner''"
    using exRegisterName_Calc by (simp add: errInnerDefined_def)
  have m: "serviceMap (exServer2 nm) nm = Some (EchoSvc nm)" for nm
    by (simp add: exServer2_def)
  have s: "methods (EchoSvc nm) ''Say'' = Some SayMT" for nm
    by (simp add: EchoSvc_def SayMT_def)
  have hc: "CHR ''.'' \<notin> set ''Say'' \<and> \<not> closed c \<and>
      dec c = FRequest (''Echo'' @ CHR ''.'' # ''Say'') 1 None # [FValue (Data 5)]"
    and hd: "CHR ''.'' \<notin> set ''Say'' \<and> \<not> closed d \<and>
      dec d = FRequest (''Calc'' @ CHR ''.'' # ''Say'') 1 None # [FValue (Data 5)]"
    unfolding c_def d_def by (simp_all add: exCodec_fresh)
  note T1 = mp[OF conjunct1[OF failed_register_keeps_service[where env = exEnv
      and ?s1.0 = exServer1 and ?r2.0 = exEcho and ?s2.0 = "exServer2 ''Echo''"]] r1]
  then obtain t isnil it svc where f: "exEcho = Val t isnil" "Indirect_Type exEcho = Some it"
    "serviceMap exServer1 (Name it) = None" "serviceMap (exServer2 ''Echo'') (Name it) = Some svc"
    and a3: "\<forall>k mt c sq tr rest.
            methods svc k = Some mt \<and> CHR ''.'' \<notin> set k \<and> \<not> closed c \<and>
            dec c = FRequest (Name it @ CHR ''.'' # k) sq tr # rest \<longrightarrow>
            fst (readRequestHeader (exServer2 ''Echo'') (c\<lparr>req := zeroRequest\<rparr>)) = Inr (svc, mt)"
    by blast
  from f(2) have it: "Name it = ''Echo''" by (auto simp: exEcho_def EchoT_def)
  from f(3,4) it have a1: "serviceMap exServer1 ''Echo'' = None"
    and a2: "serviceMap (exServer2 ''Echo'') ''Echo'' = Some svc" by simp_all
  from a2 m have e1: "svc = EchoSvc ''Echo''" by simp
  from a3[rule_format, of "''Say''" SayMT c 1 None "[FValue (Data 5)]"] e1 s hc it
  have a4: "fst (readRequestHeader (exServer2 ''Echo'') (c\<lparr>req := zeroRequest\<rparr>)) =
      Inr (EchoSvc ''Echo'', SayMT)"
    by simp
  note T2 = mp[OF conjunct2[OF failed_register_keeps_service[where env = exEnv
      and ?s1.0 = exServer1 and ?r2.0 = exEcho and ?s2.0 = "exServer2 ''Calc''"
      and ?n2.0 = "''Calc''"]] r2]
  then obtain svc2 where b1: "serviceMap exServer1 ''Calc'' = None"
    and b2: "serviceMap (exServer2 ''Calc'') ''Calc'' = Some svc2"
    and b3: "\<forall>k mt c sq tr rest.
            methods svc2 k = Some mt \<and> CHR ''.'' \<notin> set k \<and> \<not> closed c \<and>
            dec c = FRequest (''Calc'' @ CHR ''.'' # k) sq tr # rest \<longrightarrow>
            fst (readRequestHeader (exServer2 ''Calc'') (c\<lparr>req := zeroRequest\<rparr>)) = Inr (svc2, mt)"
    by blast
  from b2 m have e2: "svc2 = EchoSvc ''Calc''" by simp
  from b3[rule_format, of "''Say''" SayMT d 1 None "[FValue (Data 5)]"] e2 s hd
  have b4: "fst (readRequestHeader (exServer2 ''Calc'') (d\<lparr>req := zeroRequest\<rparr>)) =
      Inr (EchoSvc ''Calc'', SayMT)"
    by simp
  from r1 r2 a1 a2 a4 b1 b2 b4 e1 e2 show ?thesis
    unfolding c_def d_def by simp
qed

section \<open>Claims about one response\<close>

text \<open>
  C4. Whatever \<open>sendResponse\<close> brings onto the wire ends with this response's
  header alone (when the body could not be encoded) or with the header and one body;
  that body is the placeholder \<open>invalidRequest\<close>, the empty struct, when the error
  message is not empty, and the reply passed in when it is empty. On a transport that
  takes writes, with a reply gob can encode, header and body are written.
\<close>

theorem sendResponse_body:
  "invalidRequest = EmptyStruct \<and>
   (rwc (sendResponse cx c reply errmsg) = rwc c \<or>
    rwc (sendResponse cx c reply errmsg) = rwc c @ encBuf c @
      [WResponse \<lparr>resp_ServiceMethod = ctx_ServiceMethod cx, resp_Seq = ctx_Seq cx,
                  resp_Error = errmsg\<rparr>] \<or>
    rwc (sendResponse cx c reply errmsg) = rwc c @ encBuf c @
      [WResponse \<lparr>resp_ServiceMethod = ctx_ServiceMethod cx, resp_Seq = ctx_Seq cx,
                  resp_Error = errmsg\<rparr>,
       WBody (if errmsg \<noteq> [] then invalidRequest else reply)]) \<and>
   (\<not> closed c \<and> \<not> wbroken c \<and> \<not> bufErr c \<and> (errmsg \<noteq> [] \<or> gobOK reply) \<longrightarrow>
    rwc (sendResponse cx c reply errmsg) = rwc c @ encBuf c @
      [WResponse \<lparr>resp_ServiceMethod = ctx_ServiceMethod cx, resp_Seq = ctx_Seq cx,
                  resp_Error = errmsg\<rparr>,
       WBody (if errmsg \<noteq> [] then invalidRequest else reply)])"
proof -
  let ?ts = "\<lparr>resp_ServiceMethod = ctx_ServiceMethod cx, resp_Seq = ctx_Seq cx,
              resp_Error = errmsg\<rparr>"
  let ?b = "if errmsg \<noteq> [] then invalidRequest else reply"
  have a: "sendResponse cx c reply errmsg = snd (writeResponse (c\<lparr>resp := ?ts\<rparr>) ?b)"
    by (simp add: sendResponse_def Let_def)
  have b: "rwc (sendResponse cx c reply errmsg) = rwc c \<or>
    rwc (sendResponse cx c reply errmsg) = rwc c @ encBuf c @ [WResponse ?ts] \<or>
    rwc (sendResponse cx c reply errmsg) = rwc c @ encBuf c @ [WResponse ?ts, WBody ?b]"
    unfolding a using writeResponse_wire[of "c\<lparr>resp := ?ts\<rparr>" ?b] by simp
  have c: "rwc (sendResponse cx c reply errmsg) = rwc c @ encBuf c @ [WResponse ?ts, WBody ?b]"
    if "\<not> closed c \<and> \<not> wbroken c \<and> \<not> bufErr c \<and> (errmsg \<noteq> [] \<or> gobOK reply)"
    using that sendResponse_healthy[of c errmsg reply cx] by simp
  from b c show ?thesis by (simp add: invalidRequest_def)
qed

theorem sendResponse_body_witness:
  "rwc (sendResponse (NewContext None [] ''Arith.Div'' 42) (newCodec (exConn [])) (Ref (Data 7))
         ''divide by zero'') =
     [WResponse \<lparr>resp_ServiceMethod = ''Arith.Div'', resp_Seq = 42,
                 resp_Error = ''divide by zero''\<rparr>, WBody EmptyStruct] \<and>
   rwc (sendResponse (NewContext None [] ''Arith.Add'' 9) (newCodec (exConn [])) (Ref (Data 3)) []) =
     [WResponse \<lparr>resp_ServiceMethod = ''Arith.Add'', resp_Seq = 9, resp_Error = []\<rparr>,
      WBody (Ref (Data 3))]"
proof -
  have h: "\<not> closed (newCodec (exConn []))" "\<not> wbroken (newCodec (exConn []))"
    "\<not> bufErr (newCodec (exConn []))" "rwc (newCodec (exConn [])) = []"
    "encBuf (newCodec (exConn [])) = []"
    by (simp_all add: newCodec_def exConn_def)
  from sendResponse_body[of "NewContext None [] ''Arith.Div'' 42" "newCodec (exConn [])"
      "Ref (Data 7)" "''divide by zero''"]
    sendResponse_body[of "NewContext None [] ''Arith.Add'' 9" "newCodec (exConn [])"
      "Ref (Data 3)" "[]"] h
  show ?thesis by (simp add: NewContext_def)
qed

section \<open>Claims about one invocation\<close>

text \<open>
  C3. When the interceptor's \<open>Rate\<close> returns an error, \<open>call\<close> sends the
  response with that error's string as \<open>Error\<close>, the handler is not run (the calls
  leaving the server are \<open>Rate\<close> and then \<open>Stat\<close>, and the user state is the one
  \<open>Rate\<close> left, passed through \<open>Stat\<close>), and \<open>Stat\<close> gets the decoded argument
  and the error of \<open>Rate\<close>.
\<close>

theorem rate_error_skips_handler:
  assumes "Interceptor server = Some i" and "Rate i c (user w) = (Some e, u1)"
  shows "fst (call s c server mtype argv replyv codec w) =
           sendResponse c codec replyv (ErrorStr e) \<and>
         resp (fst (call s c server mtype argv replyv codec w)) =
           \<lparr>resp_ServiceMethod = ctx_ServiceMethod c, resp_Seq = ctx_Seq c,
            resp_Error = ErrorStr e\<rparr> \<and>
         calls (snd (call s c server mtype argv replyv codec w)) =
           calls w @ [EvRate c, EvStat c argv (Some e)] \<and>
         user (snd (call s c server mtype argv replyv codec w)) = Stat i c argv (Some e) u1"
proof -
  from assms have "call s c server mtype argv replyv codec w =
      (sendResponse c codec replyv (ErrorStr e),
       w\<lparr>user := Stat i c argv (Some e) u1, calls := calls w @ [EvRate c, EvStat c argv (Some e)]\<rparr>)"
    by (simp add: call_def callRate_def callStat_def Let_def)
  then show ?thesis by (simp add: sendResponse_fields)
qed

theorem rate_error_skips_handler_witness:
  "rwc (fst (call ArithSvc (NewContext None [] ''Arith.Add'' 9)
          (exServer1\<lparr>Interceptor := Some exInterceptor\<rparr>) AddMT (Ref (Data 1))
          (Ref (Zero ReplyT)) (newCodec (exConn [])) w0)) =
     [WResponse \<lparr>resp_ServiceMethod = ''Arith.Add'', resp_Seq = 9, resp_Error = ''busy''\<rparr>,
      WBody EmptyStruct] \<and>
   calls (snd (call ArithSvc (NewContext None [] ''Arith.Add'' 9)
          (exServer1\<lparr>Interceptor := Some exInterceptor\<rparr>) AddMT (Ref (Data 1))
          (Ref (Zero ReplyT)) (newCodec (exConn [])) w0)) =
     [EvRate (NewContext None [] ''Arith.Add'' 9),
      EvStat (NewContext None [] ''Arith.Add'' 9) (Ref (Data 1)) (Some (ErrorString ''busy''))] \<and>
   user (snd (call ArithSvc (NewContext None [] ''Arith.Add'' 9)
          (exServer1\<lparr>Interceptor := Some exInterceptor\<rparr>) AddMT (Ref (Data 1))
          (Ref (Zero ReplyT)) (newCodec (exConn [])) w0)) = 110"
proof -
  have i: "Interceptor (exServer1\<lparr>Interceptor := Some exInterceptor\<rparr>) = Some exInterceptor"
    by simp
  have r: "Rate exInterceptor (NewContext None [] ''Arith.Add'' 9) (user w0) =
      (Some (ErrorString ''busy''), 10)"
    by (simp add: exInterceptor_def w0_def)
  have h: "\<not> closed (newCodec (exConn []))" "\<not> wbroken (newCodec (exConn []))"
    "\<not> bufErr (newCodec (exConn []))"
    by (simp_all add: newCodec_def exConn_def)
  have s: "rwc (sendResponse (NewContext None [] ''Arith.Add'' 9) (newCodec (exConn []))
      (Ref (Zero ReplyT)) (ErrorStr (ErrorString ''busy''))) =
     [WResponse \<lparr>resp_ServiceMethod = ''Arith.Add'', resp_Seq = 9, resp_Error = ''busy''\<rparr>,
      WBody EmptyStruct]"
    using h by (simp add: sendResponse_healthy) (simp add: newCodec_def exConn_def NewContext_def
        invalidRequest_def)
  from rate_error_skips_handler[OF i r, of ArithSvc AddMT "Ref (Data 1)" "Ref (Zero ReplyT)"
      "newCodec (exConn [])"] s
  show ?thesis by (simp add: w0_def exInterceptor_def)
qed

section \<open>Claims about the handshake\<close>

text \<open>
  C1 fails as stated: with \<open>Handshake\<close> set and no interceptor, a well-formed
  \<open>inner.Auth\<close> exchange ends the handshake without error and without a response
  on the wire; and a first request that does not name \<open>inner.Auth\<close> ends it with an
  error and without a response, interceptor or not.
\<close>

theorem handshake_without_response:
  "Handshake exServerH \<and> Interceptor exServerH = None \<and>
   fst (handshake exServerH
          (newCodec (exConn [FRequest ''inner.Auth'' 0 None, FAuth ''u'' ''good''])) w0) = None \<and>
   rwc (fst (snd (handshake exServerH
          (newCodec (exConn [FRequest ''inner.Auth'' 0 None, FAuth ''u'' ''good''])) w0))) = [] \<and>
   Handshake exServerHI \<and> Interceptor exServerHI = Some exInterceptor \<and>
   fst (handshake exServerHI
          (newCodec (exConn [FRequest ''Arith.Add'' 0 None, FAuth ''u'' ''good''])) w0) =
     Some (ErrorString ''rpc: auth service method: Arith.Add'') \<and>
   rwc (fst (snd (handshake exServerHI
          (newCodec (exConn [FRequest ''Arith.Add'' 0 None, FAuth ''u'' ''good''])) w0))) = []"
proof -
  have h: "Handshake exServerH" "Interceptor exServerH = None"
    "Handshake exServerHI" "Interceptor exServerHI = Some exInterceptor"
    by (simp_all add: exServerH_def exServerHI_def exServer1_def newServer_def)
  have a: "conn_in (exConn [FRequest ''inner.Auth'' 0 None, FAuth ''u'' ''good'']) =
      FRequest ''inner.Auth'' 0 None # FAuth ''u'' ''good'' # []"
    and b: "conn_in (exConn [FRequest ''Arith.Add'' 0 None, FAuth ''u'' ''good'']) =
      FRequest ''Arith.Add'' 0 None # FAuth ''u'' ''good'' # []"
    by (simp_all add: exConn_def)
  show ?thesis
    using h
    by (simp add: handshake_fresh[OF h(1) a refl] handshake_fresh[OF h(3) b refl]
        authServiceMethod_def)
       (simp add: newCodec_def)
qed

text \<open>
  C1, amended. On a fresh connection whose first two records decode as a request
  header and an \<open>Auth\<close> record, over a transport that takes writes, the handshake
  of a server with \<open>Handshake\<close> set writes exactly one response (header and
  placeholder body) when the header names \<open>inner.Auth\<close> and an interceptor is
  configured: its \<open>Error\<close> is empty when \<open>Interceptor.Auth\<close> succeeds and the
  error's string when it fails, and the handshake returns that error. When the header
  names another method the handshake returns the \<open>auth service method\<close> error and
  writes nothing; when no interceptor is configured it returns no error and writes
  nothing. After a handshake error \<open>ServeConn\<close> closes the codec and serves no
  request.
\<close>

theorem handshake_response:
  assumes "Handshake server"
    and "conn_in cn = FRequest sm sq tr # FAuth u tok # rest"
    and "\<not> conn_broken cn"
  shows "(sm = ''inner.Auth'' \<and> Interceptor server = Some i \<longrightarrow>
            fst (handshake server (newCodec cn) w) =
              fst (Auth i (NewContext tr u sm sq) (RemoteAddr cn) tok (user w)) \<and>
            rwc (fst (snd (handshake server (newCodec cn) w))) =
              [WResponse \<lparr>resp_ServiceMethod = sm, resp_Seq = sq,
                 resp_Error =
                   (case fst (Auth i (NewContext tr u sm sq) (RemoteAddr cn) tok (user w)) of
                      None \<Rightarrow> [] | Some e \<Rightarrow> ErrorStr e)\<rparr>,
               WBody invalidRequest]) \<and>
         (sm \<noteq> ''inner.Auth'' \<longrightarrow>
            fst (handshake server (newCodec cn) w) =
              Some (ErrorString (''rpc: auth service method: '' @ sm)) \<and>
            rwc (fst (snd (handshake server (newCodec cn) w))) = []) \<and>
         (sm = ''inner.Auth'' \<and> Interceptor server = None \<longrightarrow>
            fst (handshake server (newCodec cn) w) = None \<and>
            rwc (fst (snd (handshake server (newCodec cn) w))) = []) \<and>
         (fst (handshake server (newCodec cn) w) \<noteq> None \<longrightarrow>
            ServeConn server cn w =
              Some (close (fst (snd (handshake server (newCodec cn) w))), [],
                    snd (snd (handshake server (newCodec cn) w))))"
proof -
  let ?c2 = "(newCodec cn)\<lparr>req := \<lparr>req_ServiceMethod = sm, req_Seq = sq, req_Trace = tr,
                                      req_ctx = None\<rparr>,
                             auth := \<lparr>User = u, Token = tok\<rparr>, dec := rest\<rparr>"
  note hs = handshake_fresh[OF assms(1,2) refl, of w]
  have p1: "fst (handshake server (newCodec cn) w) =
              fst (Auth i (NewContext tr u sm sq) (RemoteAddr cn) tok (user w)) \<and>
            rwc (fst (snd (handshake server (newCodec cn) w))) =
              [WResponse \<lparr>resp_ServiceMethod = sm, resp_Seq = sq,
                 resp_Error =
                   (case fst (Auth i (NewContext tr u sm sq) (RemoteAddr cn) tok (user w)) of
                      None \<Rightarrow> [] | Some e \<Rightarrow> ErrorStr e)\<rparr>,
               WBody invalidRequest]"
    if a: "sm = ''inner.Auth'' \<and> Interceptor server = Some i"
  proof -
    let ?cx = "NewContext tr u sm sq"
    let ?c3 = "?c2\<lparr>req := (req ?c2)\<lparr>req_ctx := Some ?cx\<rparr>\<rparr>"
    obtain err u1 where au: "Auth i ?cx (RemoteAddr cn) tok (user w) = (err, u1)"
      by (cases "Auth i ?cx (RemoteAddr cn) tok (user w)")
    let ?m = "case err of None \<Rightarrow> [] | Some e \<Rightarrow> ErrorStr e"
    from a au have e: "handshake server (newCodec cn) w =
        (err, sendResponse ?cx ?c3 invalidRequest ?m,
         w\<lparr>user := u1, calls := calls w @ [EvAuth ?cx (RemoteAddr cn) tok]\<rparr>)"
      unfolding hs by (simp add: authServiceMethod_def callAuth_def Let_def)
    have h: "\<not> closed ?c3" "\<not> wbroken ?c3" "\<not> bufErr ?c3" "?m \<noteq> [] \<or> gobOK invalidRequest"
      using assms(3) by (simp_all add: newCodec_def invalidRequest_def)
    have "rwc (sendResponse ?cx ?c3 invalidRequest ?m) =
        [WResponse \<lparr>resp_ServiceMethod = sm, resp_Seq = sq, resp_Error = ?m\<rparr>,
         WBody invalidRequest]"
      unfolding sendResponse_healthy[OF h] by (simp add: newCodec_def NewContext_def)
    with e au show ?thesis by simp
  qed
  have p2: "fst (handshake server (newCodec cn) w) =
              Some (ErrorString (''rpc: auth service method: '' @ sm)) \<and>
            rwc (fst (snd (handshake server (newCodec cn) w))) = []"
    if "sm \<noteq> ''inner.Auth''"
    using that unfolding hs by (simp add: authServiceMethod_def newCodec_def)
  have p3: "fst (handshake server (newCodec cn) w) = None \<and>
            rwc (fst (snd (handshake server (newCodec cn) w))) = []"
    if "sm = ''inner.Auth'' \<and> Interceptor server = None"
    using that unfolding hs by (simp add: authServiceMethod_def newCodec_def)
  have p4: "ServeConn server cn w =
              Some (close (fst (snd (handshake server (newCodec cn) w))), [],
                    snd (snd (handshake server (newCodec cn) w)))"
    if "fst (handshake server (newCodec cn) w) \<noteq> None"
    using that
    by (cases "handshake server (newCodec cn) w")
       (auto simp: ServeConn_def serveCodec_def)
  from p1 p2 p3 p4 show ?thesis by blast
qed

theorem handshake_response_witness:
  "rwc (fst (snd (handshake exServerHI
          (newCodec (exConn [FRequest ''inner.Auth'' 0 None, FAuth ''u'' ''good''])) w0))) =
     [WResponse \<lparr>resp_ServiceMethod = ''inner.Auth'', resp_Seq = 0, resp_Error = []\<rparr>,
      WBody EmptyStruct] \<and>
   rwc (fst (snd (handshake exServerHI
          (newCodec (exConn [FRequest ''inner.Auth'' 0 None, FAuth ''u'' ''bad''])) w0))) =
     [WResponse \<lparr>resp_ServiceMethod = ''inner.Auth'', resp_Seq = 0, resp_Error = ''bad token''\<rparr>,
      WBody EmptyStruct] \<and>
   map_option (\<lambda>r. (closed (fst r), fst (snd r)))
     (ServeConn exServerHI (exConn [FRequest ''inner.Auth'' 0 None, FAuth ''u'' ''bad'']) w0) =
     Some (True, []) \<and>
   rwc (fst (snd (handshake exServerHI
          (newCodec (exConn [FRequest ''Arith.Add'' 0 None, FAuth ''u'' ''good''])) w0))) = [] \<and>
   rwc (fst (snd (handshake exServerH
          (newCodec (exConn [FRequest ''inner.Auth'' 0 None, FAuth ''u'' ''good''])) w0))) = []"
proof -
  have h: "Handshake exServerH" "Interceptor exServerH = None"
    "Handshake exServerHI" "Interceptor exServerHI = Some exInterceptor"
    by (simp_all add: exServerH_def exServerHI_def exServer1_def newServer_def)
  have c: "conn_in (exConn (FRequest sm sq tr # FAuth u tok # [])) =
      FRequest sm sq tr # FAuth u tok # []"
    "\<not> conn_broken (exConn fs)" for sm sq tr u tok fs
    by (simp_all add: exConn_def)
  note good = handshake_response[where server = exServerHI and sm = "''inner.Auth''"
      and sq = 0 and tr = None and u = "''u''" and tok = "''good''" and i = exInterceptor
      and w = w0, OF h(3) c(1) c(2)]
  note bad = handshake_response[where server = exServerHI and sm = "''inner.Auth''"
      and sq = 0 and tr = None and u = "''u''" and tok = "''bad''" and i = exInterceptor
      and w = w0, OF h(3) c(1) c(2)]
  note other = handshake_response[where server = exServerHI and sm = "''Arith.Add''"
      and sq = 0 and tr = None and u = "''u''" and tok = "''good''" and i = exInterceptor
      and w = w0, OF h(3) c(1) c(2)]
  note none = handshake_response[where server = exServerH and sm = "''inner.Auth''"
      and sq = 0 and tr = None and u = "''u''" and tok = "''good''" and i = exInterceptor
      and w = w0, OF h(1) c(1) c(2)]
  have au: "fst (Auth exInterceptor cx a ''good'' x) = None"
    "fst (Auth exInterceptor cx a ''bad'' x) = Some (ErrorString ''bad token'')" for cx a x
    by (simp_all add: exInterceptor_def)
  from good h au have 1: "rwc (fst (snd (handshake exServerHI
          (newCodec (exConn [FRequest ''inner.Auth'' 0 None, FAuth ''u'' ''good''])) w0))) =
     [WResponse \<lparr>resp_ServiceMethod = ''inner.Auth'', resp_Seq = 0, resp_Error = []\<rparr>,
      WBody EmptyStruct]"
    by (simp add: invalidRequest_def)
  from bad h au have 2: "rwc (fst (snd (handshake exServerHI
          (newCodec (exConn [FRequest ''inner.Auth'' 0 None, FAuth ''u'' ''bad''])) w0))) =
     [WResponse \<lparr>resp_ServiceMethod = ''inner.Auth'', resp_Seq = 0, resp_Error = ''bad token''\<rparr>,
      WBody EmptyStruct]"
    and 3: "map_option (\<lambda>r. (closed (fst r), fst (snd r)))
     (ServeConn exServerHI (exConn [FRequest ''inner.Auth'' 0 None, FAuth ''u'' ''bad'']) w0) =
     Some (True, [])"
    by (simp_all add: invalidRequest_def close_fields)
  from other have 4: "rwc (fst (snd (handshake exServerHI
          (newCodec (exConn [FRequest ''Arith.Add'' 0 None, FAuth ''u'' ''good''])) w0))) = []"
    by simp
  from none h have 5: "rwc (fst (snd (handshake exServerH
          (newCodec (exConn [FRequest ''inner.Auth'' 0 None, FAuth ''u'' ''good''])) w0))) = []"
    by simp
  from 1 2 3 4 5 show ?thesis by blast
qed

section \<open>Claims about the serve loop\<close>

text \<open>
  C5. In the serve loop, a request whose header decodes and whose \<open>ServiceMethod\<close>
  has no dot is answered with the error
  \<open>rpc: service/method request ill-formed: \<close> followed by the \<open>ServiceMethod\<close>;
  the record after the header is consumed, the codec stays open, and the loop goes
  on from there with the same server and tasks. On a transport that takes writes the
  header and the placeholder body reach the wire. When there is a dot, the text
  before the last dot is looked up as the service and the text after it as the
  method.
\<close>

theorem illformed_request:
  "(\<not> closed c \<and> dec c = FRequest sm sq tr # rest \<and> CHR ''.'' \<notin> set sm \<and>
    c1 = sendResponse (NewContext tr (User (auth c)) sm sq)
           (headerRead c sm sq tr (tl rest)) invalidRequest
           (''rpc: service/method request ill-formed: '' @ sm) \<longrightarrow>
      serveLoop server c tasks = serveLoop server c1 tasks \<and>
      resp c1 = \<lparr>resp_ServiceMethod = sm, resp_Seq = sq,
                 resp_Error = ''rpc: service/method request ill-formed: '' @ sm\<rparr> \<and>
      dec c1 = tl rest \<and> \<not> closed c1 \<and>
      (\<not> wbroken c \<and> \<not> bufErr c \<longrightarrow>
         rwc c1 = rwc c @ encBuf c @
           [WResponse \<lparr>resp_ServiceMethod = sm, resp_Seq = sq,
              resp_Error = ''rpc: service/method request ill-formed: '' @ sm\<rparr>,
            WBody invalidRequest])) \<and>
   (\<not> closed c \<and> dec c = FRequest (a @ CHR ''.'' # k) sq tr # rest \<and> CHR ''.'' \<notin> set k \<longrightarrow>
      fst (readRequestHeader server (c\<lparr>req := zeroRequest\<rparr>)) =
        (case serviceMap server a of
           None \<Rightarrow> Inl (ErrorString (''rpc: can't find service '' @ a @ CHR ''.'' # k))
         | Some svc \<Rightarrow>
             (case methods svc k of
                None \<Rightarrow> Inl (ErrorString (''rpc: can't find method '' @ a @ CHR ''.'' # k))
              | Some mt \<Rightarrow> Inr (svc, mt))))"
proof (rule conjI; rule impI)
  assume h: "\<not> closed c \<and> dec c = FRequest sm sq tr # rest \<and> CHR ''.'' \<notin> set sm \<and>
    c1 = sendResponse (NewContext tr (User (auth c)) sm sq)
           (headerRead c sm sq tr (tl rest)) invalidRequest
           (''rpc: service/method request ill-formed: '' @ sm)"
  then have o: "\<not> closed c" and d: "dec c = FRequest sm sq tr # rest"
    and n: "CHR ''.'' \<notin> set sm" by simp_all
  from n have na: "sm \<noteq> authServiceMethod" by (auto simp: authServiceMethod_def)
  from h na have c1: "c1 = sendResponse (NewContext tr (User (auth c)) sm sq)
      (headerRead c sm sq tr (tl rest)) invalidRequest
      (if sm = authServiceMethod then []
       else ErrorStr (ErrorString (''rpc: service/method request ill-formed: '' @ sm)))"
    by simp
  note r = readRequestHeader_illformed[OF o d n, of server]
  from serveLoop_failure[OF o d r c1, of tasks] na
  show "serveLoop server c tasks = serveLoop server c1 tasks \<and>
      resp c1 = \<lparr>resp_ServiceMethod = sm, resp_Seq = sq,
                 resp_Error = ''rpc: service/method request ill-formed: '' @ sm\<rparr> \<and>
      dec c1 = tl rest \<and> \<not> closed c1 \<and>
      (\<not> wbroken c \<and> \<not> bufErr c \<longrightarrow>
         rwc c1 = rwc c @ encBuf c @
           [WResponse \<lparr>resp_ServiceMethod = sm, resp_Seq = sq,
              resp_Error = ''rpc: service/method request ill-formed: '' @ sm\<rparr>,
            WBody invalidRequest])"
    by simp
next
  assume "\<not> closed c \<and> dec c = FRequest (a @ CHR ''.'' # k) sq tr # rest \<and> CHR ''.'' \<notin> set k"
  then have o: "\<not> closed c" and d: "dec c = FRequest (a @ CHR ''.'' # k) sq tr # rest"
    and n: "CHR ''.'' \<notin> set k" by simp_all
  show "fst (readRequestHeader server (c\<lparr>req := zeroRequest\<rparr>)) =
        (case serviceMap server a of
           None \<Rightarrow> Inl (ErrorString (''rpc: can't find service '' @ a @ CHR ''.'' # k))
         | Some svc \<Rightarrow>
             (case methods svc k of
                None \<Rightarrow> Inl (ErrorString (''rpc: can't find method '' @ a @ CHR ''.'' # k))
              | Some mt \<Rightarrow> Inr (svc, mt)))"
    by (simp add: readRequestHeader_split[OF o d n])
qed

theorem illformed_request_witness:
  "map_option (rwc \<circ> fst)
     (serveLoop exServer1
        (newCodec (exConn [FRequest ''Ping'' 3 None, FValue EmptyStruct,
                           FRequest ''inner.Ping'' 4 None, FValue EmptyStruct])) []) =
     Some [WResponse \<lparr>resp_ServiceMethod = ''Ping'', resp_Seq = 3,
             resp_Error = ''rpc: service/method request ill-formed: Ping''\<rparr>,
           WBody EmptyStruct] \<and>
   map_option (map (mName \<circ> meth \<circ> t_mtype) \<circ> snd)
     (serveLoop exServer1
        (newCodec (exConn [FRequest ''Ping'' 3 None, FValue EmptyStruct,
                           FRequest ''inner.Ping'' 4 None, FValue EmptyStruct])) []) =
     Some [''Ping''] \<and>
   fst (readRequestHeader exServer1
          ((newCodec (exConn [FRequest ''Arith.Add'' 9 None, FValue (Data 1)]))
             \<lparr>req := zeroRequest\<rparr>)) = Inr (ArithSvc, AddMT)"
proof -
  define c where "c = newCodec (exConn [FRequest ''Ping'' 3 None, FValue EmptyStruct,
                           FRequest ''inner.Ping'' 4 None, FValue EmptyStruct])"
  define d where "d = newCodec (exConn [FRequest ''Arith.Add'' 9 None, FValue (Data 1)])"
  define c1 where "c1 = sendResponse (NewContext None (User (auth c)) ''Ping'' 3)
     (headerRead c ''Ping'' 3 None
        (tl [FValue EmptyStruct, FRequest ''inner.Ping'' 4 None, FValue EmptyStruct]))
     invalidRequest (''rpc: service/method request ill-formed: '' @ ''Ping'')"
  have h: "\<not> closed c \<and> dec c = FRequest ''Ping'' 3 None #
      [FValue EmptyStruct, FRequest ''inner.Ping'' 4 None, FValue EmptyStruct] \<and>
      CHR ''.'' \<notin> set ''Ping'' \<and>
      c1 = sendResponse (NewContext None (User (auth c)) ''Ping'' 3)
       (headerRead c ''Ping'' 3 None
        (tl [FValue EmptyStruct, FRequest ''inner.Ping'' 4 None, FValue EmptyStruct]))
       invalidRequest (''rpc: service/method request ill-formed: '' @ ''Ping'')"
    unfolding c_def c1_def by (simp add: exCodec_fresh)
  have g: "\<not> wbroken c \<and> \<not> bufErr c" and g2: "rwc c = []" "encBuf c = []"
    unfolding c_def by (simp_all add: exCodec_fresh)
  have h2: "\<not> closed d \<and> dec d = FRequest (''Arith'' @ CHR ''.'' # ''Add'') 9 None #
      [FValue (Data 1)] \<and> CHR ''.'' \<notin> set ''Add''"
    unfolding d_def by (simp add: exCodec_fresh)
  from illformed_request[where c = c and sm = "''Ping''" and sq = 3 and tr = None
      and rest = "[FValue EmptyStruct, FRequest ''inner.Ping'' 4 None, FValue EmptyStruct]"
      and server = exServer1 and tasks = "[]" and ?c1.0 = c1] h g
  have a: "serveLoop exServer1 c [] = serveLoop exServer1 c1 []"
    and b: "dec c1 = tl [FValue EmptyStruct, FRequest ''inner.Ping'' 4 None, FValue EmptyStruct]"
      "\<not> closed c1"
    and w: "rwc c1 = rwc c @ encBuf c @
           [WResponse \<lparr>resp_ServiceMethod = ''Ping'', resp_Seq = 3,
              resp_Error = ''rpc: service/method request ill-formed: '' @ ''Ping''\<rparr>,
            WBody invalidRequest]"
    by blast+
  from b(1) have b1: "dec c1 = [FRequest ''inner.Ping'' 4 None, FValue EmptyStruct]" by simp
  have i: "serviceMap exServer1 ''inner'' = Some innerSvc"
    by (simp add: exServer1_def)
  from w g2 have w': "rwc c1 = [WResponse \<lparr>resp_ServiceMethod = ''Ping'', resp_Seq = 3,
             resp_Error = ''rpc: service/method request ill-formed: Ping''\<rparr>,
           WBody EmptyStruct]"
    by (simp add: invalidRequest_def)
  note p12 = then_ping_view[OF a b1 b(2) i, unfolded w']
  from illformed_request[where c = d and sq = 9 and tr = None
      and rest = "[FValue (Data 1)]" and server = exServer1 and a = "''Arith''"
      and k = "''Add''"] h2
  have "fst (readRequestHeader exServer1 (d\<lparr>req := zeroRequest\<rparr>)) =
        (case serviceMap exServer1 ''Arith'' of
           None \<Rightarrow> Inl (ErrorString (''rpc: can't find service '' @ ''Arith'' @ CHR ''.'' # ''Add''))
         | Some svc \<Rightarrow>
             (case methods svc ''Add'' of
                None \<Rightarrow> Inl (ErrorString (''rpc: can't find method '' @ ''Arith'' @ CHR ''.'' # ''Add''))
              | Some mt \<Rightarrow> Inr (svc, mt)))"
    by blast
  then have p3: "fst (readRequestHeader exServer1 (d\<lparr>req := zeroRequest\<rparr>)) = Inr (ArithSvc, AddMT)"
    by (simp add: exServer1_def ArithSvc_def AddMT_def)
  from p12 p3 show ?thesis unfolding c_def d_def by blast
qed


text \<open>
  C6 fails as stated for the one identifier \<open>inner.Auth\<close>: on a server without a
  service \<open>inner\<close>, and on one whose \<open>inner\<close> has no method \<open>Auth\<close>, the
  response to such a request carries an empty \<open>Error\<close>.
\<close>

theorem unknown_inner_auth_empty_error:
  "serviceMap (newServer :: nat Server) ''inner'' = None \<and>
   map_option (rwc \<circ> fst)
     (serveLoop (newServer :: nat Server)
        (newCodec (exConn [FRequest ''inner.Auth'' 5 None, FValue EmptyStruct])) []) =
     Some [WResponse \<lparr>resp_ServiceMethod = ''inner.Auth'', resp_Seq = 5, resp_Error = []\<rparr>,
           WBody EmptyStruct] \<and>
   serviceMap exServer1 ''inner'' = Some innerSvc \<and> methods innerSvc ''Auth'' = None \<and>
   map_option (rwc \<circ> fst)
     (serveLoop exServer1
        (newCodec (exConn [FRequest ''inner.Auth'' 5 None, FValue EmptyStruct])) []) =
     Some [WResponse \<lparr>resp_ServiceMethod = ''inner.Auth'', resp_Seq = 5, resp_Error = []\<rparr>,
           WBody EmptyStruct]"
proof -
  define c where "c = newCodec (exConn [FRequest ''inner.Auth'' 5 None, FValue EmptyStruct])"
  have o: "\<not> closed c" and d: "dec c = FRequest ''inner.Auth'' 5 None # [FValue EmptyStruct]"
    and d': "dec c = FRequest (''inner'' @ CHR ''.'' # ''Auth'') 5 None # [FValue EmptyStruct]"
    and g: "\<not> wbroken c \<and> \<not> bufErr c" and g2: "rwc c = []" "encBuf c = []"
    unfolding c_def by (simp_all add: exCodec_fresh)
  have n: "CHR ''.'' \<notin> set ''Auth''" by simp
  have s: "serviceMap (newServer :: nat Server) ''inner'' = None"
    "serviceMap exServer1 ''inner'' = Some innerSvc" "methods innerSvc ''Auth'' = None"
    by (simp_all add: newServer_def exServer1_def innerSvc_def)
  have r1: "readRequestHeader (newServer :: nat Server) (c\<lparr>req := zeroRequest\<rparr>) =
      (Inl (ErrorString ''rpc: can't find service inner.Auth''),
       headerRead c ''inner.Auth'' 5 None [FValue EmptyStruct])"
    using readRequestHeader_split[OF o d' n, of "newServer :: nat Server"] s by simp
  have r2: "readRequestHeader exServer1 (c\<lparr>req := zeroRequest\<rparr>) =
      (Inl (ErrorString ''rpc: can't find method inner.Auth''),
       headerRead c ''inner.Auth'' 5 None [FValue EmptyStruct])"
    using readRequestHeader_split[OF o d' n, of exServer1] s by simp
  define c1 where "c1 = sendResponse (NewContext None (User (auth c)) ''inner.Auth'' 5)
      (headerRead c ''inner.Auth'' 5 None (tl [FValue EmptyStruct])) invalidRequest
      (if ''inner.Auth'' = authServiceMethod then []
       else ErrorStr (ErrorString ''rpc: can't find service inner.Auth''))"
  define c2 where "c2 = sendResponse (NewContext None (User (auth c)) ''inner.Auth'' 5)
      (headerRead c ''inner.Auth'' 5 None (tl [FValue EmptyStruct])) invalidRequest
      (if ''inner.Auth'' = authServiceMethod then []
       else ErrorStr (ErrorString ''rpc: can't find method inner.Auth''))"
  note f1 = serveLoop_failure[OF o d r1 c1_def, of "[]"]
  note f2 = serveLoop_failure[OF o d r2 c2_def, of "[]"]
  from f1 g g2 have w1: "rwc c1 =
      [WResponse \<lparr>resp_ServiceMethod = ''inner.Auth'', resp_Seq = 5, resp_Error = []\<rparr>,
       WBody EmptyStruct]"
    by (simp add: authServiceMethod_def invalidRequest_def)
  from f2 g g2 have w2: "rwc c2 =
      [WResponse \<lparr>resp_ServiceMethod = ''inner.Auth'', resp_Seq = 5, resp_Error = []\<rparr>,
       WBody EmptyStruct]"
    by (simp add: authServiceMethod_def invalidRequest_def)
  from f1 have e1: "serveLoop (newServer :: nat Server) c [] = serveLoop newServer c1 []"
    "dec c1 = []"
    "\<not> closed c1" by simp_all
  from f2 have e2: "serveLoop exServer1 c [] = serveLoop exServer1 c2 []" "dec c2 = []"
    "\<not> closed c2" by simp_all
  from then_eof_view[OF e1] then_eof_view[OF e2] w1 w2 s
  show ?thesis unfolding c_def by simp
qed

text \<open>
  C6, amended. In the serve loop, a request whose \<open>ServiceMethod\<close> has a dot and is
  not \<open>inner.Auth\<close> is answered with \<open>rpc: can't find service \<close> followed by the
  \<open>ServiceMethod\<close> when the text before the last dot is no registered service, and
  with \<open>rpc: can't find method \<close> followed by the \<open>ServiceMethod\<close> when the
  service is registered and has no method named by the text after the last dot. In
  both cases the record after the header is consumed, the codec stays open and the
  loop goes on from there; on a transport that takes writes the header and the
  placeholder body reach the wire.
\<close>

theorem unknown_service_or_method:
  assumes "\<not> closed c"
    and "dec c = FRequest (a @ CHR ''.'' # k) sq tr # rest"
    and "CHR ''.'' \<notin> set k"
    and "a @ CHR ''.'' # k \<noteq> ''inner.Auth''"
    and "serviceMap server a = None \<and> msg = ''rpc: can't find service '' @ a @ CHR ''.'' # k \<or>
         (\<exists>svc. serviceMap server a = Some svc \<and> methods svc k = None) \<and>
         msg = ''rpc: can't find method '' @ a @ CHR ''.'' # k"
    and "c1 = sendResponse (NewContext tr (User (auth c)) (a @ CHR ''.'' # k) sq)
                (headerRead c (a @ CHR ''.'' # k) sq tr (tl rest)) invalidRequest msg"
  shows "serveLoop server c tasks = serveLoop server c1 tasks \<and>
         resp c1 = \<lparr>resp_ServiceMethod = a @ CHR ''.'' # k, resp_Seq = sq, resp_Error = msg\<rparr> \<and>
         dec c1 = tl rest \<and> \<not> closed c1 \<and>
         (\<not> wbroken c \<and> \<not> bufErr c \<longrightarrow>
            rwc c1 = rwc c @ encBuf c @
              [WResponse \<lparr>resp_ServiceMethod = a @ CHR ''.'' # k, resp_Seq = sq,
                          resp_Error = msg\<rparr>,
               WBody invalidRequest])"
proof -
  let ?sm = "a @ CHR ''.'' # k"
  from assms(5) have r: "readRequestHeader server (c\<lparr>req := zeroRequest\<rparr>) =
      (Inl (ErrorString msg), headerRead c ?sm sq tr rest)"
    unfolding readRequestHeader_split[OF assms(1,2,3)] by auto
  from assms(4) have na: "?sm \<noteq> authServiceMethod" by (simp add: authServiceMethod_def)
  with assms(6) have c1: "c1 = sendResponse (NewContext tr (User (auth c)) ?sm sq)
      (headerRead c ?sm sq tr (tl rest)) invalidRequest
      (if ?sm = authServiceMethod then [] else ErrorStr (ErrorString msg))"
    by simp
  from serveLoop_failure[OF assms(1,2) r c1, of tasks] na show ?thesis by simp
qed

theorem unknown_service_or_method_witness:
  "map_option (rwc \<circ> fst)
     (serveLoop exServer1
        (newCodec (exConn [FRequest ''Arith.Nope'' 1 None, FValue (Data 8),
                           FRequest ''inner.Ping'' 2 None, FValue EmptyStruct])) []) =
     Some [WResponse \<lparr>resp_ServiceMethod = ''Arith.Nope'', resp_Seq = 1,
             resp_Error = ''rpc: can't find method Arith.Nope''\<rparr>,
           WBody EmptyStruct] \<and>
   map_option (map (mName \<circ> meth \<circ> t_mtype) \<circ> snd)
     (serveLoop exServer1
        (newCodec (exConn [FRequest ''Arith.Nope'' 1 None, FValue (Data 8),
                           FRequest ''inner.Ping'' 2 None, FValue EmptyStruct])) []) =
     Some [''Ping''] \<and>
   map_option (rwc \<circ> fst)
     (serveLoop exServer1
        (newCodec (exConn [FRequest ''MathSvc.Nope'' 1 None, FValue (Data 8),
                           FRequest ''inner.Ping'' 2 None, FValue EmptyStruct])) []) =
     Some [WResponse \<lparr>resp_ServiceMethod = ''MathSvc.Nope'', resp_Seq = 1,
             resp_Error = ''rpc: can't find service MathSvc.Nope''\<rparr>,
           WBody EmptyStruct] \<and>
   map_option (map (mName \<circ> meth \<circ> t_mtype) \<circ> snd)
     (serveLoop exServer1
        (newCodec (exConn [FRequest ''MathSvc.Nope'' 1 None, FValue (Data 8),
                           FRequest ''inner.Ping'' 2 None, FValue EmptyStruct])) []) =
     Some [''Ping'']"
proof -
  define c where "c = newCodec (exConn [FRequest ''Arith.Nope'' 1 None, FValue (Data 8),
                           FRequest ''inner.Ping'' 2 None, FValue EmptyStruct])"
  define d where "d = newCodec (exConn [FRequest ''MathSvc.Nope'' 1 None, FValue (Data 8),
                           FRequest ''inner.Ping'' 2 None, FValue EmptyStruct])"
  define c1 where "c1 = sendResponse (NewContext None (User (auth c)) (''Arith'' @ CHR ''.'' # ''Nope'') 1)
      (headerRead c (''Arith'' @ CHR ''.'' # ''Nope'') 1 None
         (tl [FValue (Data 8), FRequest ''inner.Ping'' 2 None, FValue EmptyStruct]))
      invalidRequest ''rpc: can't find method Arith.Nope''"
  define d1 where "d1 = sendResponse (NewContext None (User (auth d)) (''MathSvc'' @ CHR ''.'' # ''Nope'') 1)
      (headerRead d (''MathSvc'' @ CHR ''.'' # ''Nope'') 1 None
         (tl [FValue (Data 8), FRequest ''inner.Ping'' 2 None, FValue EmptyStruct]))
      invalidRequest ''rpc: can't find service MathSvc.Nope''"
  have oc: "\<not> closed c" "dec c = FRequest (''Arith'' @ CHR ''.'' # ''Nope'') 1 None #
      [FValue (Data 8), FRequest ''inner.Ping'' 2 None, FValue EmptyStruct]"
    and gc: "\<not> wbroken c \<and> \<not> bufErr c" "rwc c = []" "encBuf c = []"
    unfolding c_def by (simp_all add: exCodec_fresh)
  have od: "\<not> closed d" "dec d = FRequest (''MathSvc'' @ CHR ''.'' # ''Nope'') 1 None #
      [FValue (Data 8), FRequest ''inner.Ping'' 2 None, FValue EmptyStruct]"
    and gd: "\<not> wbroken d \<and> \<not> bufErr d" "rwc d = []" "encBuf d = []"
    unfolding d_def by (simp_all add: exCodec_fresh)
  have n: "CHR ''.'' \<notin> set ''Nope''" "''Arith'' @ CHR ''.'' # ''Nope'' \<noteq> ''inner.Auth''"
    "''MathSvc'' @ CHR ''.'' # ''Nope'' \<noteq> ''inner.Auth''"
    by simp_all
  have lc: "serviceMap exServer1 ''Arith'' = None \<and>
         ''rpc: can't find method Arith.Nope'' =
           ''rpc: can't find service '' @ ''Arith'' @ CHR ''.'' # ''Nope'' \<or>
         (\<exists>svc. serviceMap exServer1 ''Arith'' = Some svc \<and> methods svc ''Nope'' = None) \<and>
         ''rpc: can't find method Arith.Nope'' =
           ''rpc: can't find method '' @ ''Arith'' @ CHR ''.'' # ''Nope''"
    by (simp add: exServer1_def ArithSvc_def)
  have ld: "serviceMap exServer1 ''MathSvc'' = None \<and>
         ''rpc: can't find service MathSvc.Nope'' =
           ''rpc: can't find service '' @ ''MathSvc'' @ CHR ''.'' # ''Nope'' \<or>
         (\<exists>svc. serviceMap exServer1 ''MathSvc'' = Some svc \<and> methods svc ''Nope'' = None) \<and>
         ''rpc: can't find service MathSvc.Nope'' =
           ''rpc: can't find method '' @ ''MathSvc'' @ CHR ''.'' # ''Nope''"
    by (simp add: exServer1_def)
  have i: "serviceMap exServer1 ''inner'' = Some innerSvc"
    by (simp add: exServer1_def)
  note tc = unknown_service_or_method[OF oc n(1) n(2) lc c1_def, of "[]"]
  note td = unknown_service_or_method[OF od n(1) n(3) ld d1_def, of "[]"]
  from tc gc have wc: "rwc c1 = [WResponse \<lparr>resp_ServiceMethod = ''Arith.Nope'', resp_Seq = 1,
             resp_Error = ''rpc: can't find method Arith.Nope''\<rparr>, WBody EmptyStruct]"
    by (simp add: invalidRequest_def)
  from td gd have wd: "rwc d1 = [WResponse \<lparr>resp_ServiceMethod = ''MathSvc.Nope'', resp_Seq = 1,
             resp_Error = ''rpc: can't find service MathSvc.Nope''\<rparr>, WBody EmptyStruct]"
    by (simp add: invalidRequest_def)
  from tc have ec: "serveLoop exServer1 c [] = serveLoop exServer1 c1 []"
    "dec c1 = [FRequest ''inner.Ping'' 2 None, FValue EmptyStruct]" "\<not> closed c1"
    by simp_all
  from td have ed: "serveLoop exServer1 d [] = serveLoop exServer1 d1 []"
    "dec d1 = [FRequest ''inner.Ping'' 2 None, FValue EmptyStruct]" "\<not> closed d1"
    by simp_all
  from then_ping_view[OF ec i] then_ping_view[OF ed i] wc wd
  show ?thesis unfolding c_def d_def by simp
qed

text \<open>
  C7. In the serve loop, which runs after the handshake, a request for
  \<open>inner.Auth\<close> whose lookup fails (no service \<open>inner\<close>, or no method \<open>Auth\<close>
  on it) is answered with an empty \<open>Error\<close>; the record after the header is
  consumed, the codec stays open and the loop goes on from there. On a transport that
  takes writes the header and the placeholder body reach the wire.
\<close>

theorem inner_auth_suppressed:
  assumes "\<not> closed c"
    and "dec c = FRequest ''inner.Auth'' sq tr # rest"
    and "serviceMap server ''inner'' = None \<or>
         (\<exists>svc. serviceMap server ''inner'' = Some svc \<and> methods svc ''Auth'' = None)"
    and "c1 = sendResponse (NewContext tr (User (auth c)) ''inner.Auth'' sq)
                (headerRead c ''inner.Auth'' sq tr (tl rest)) invalidRequest []"
  shows "serveLoop server c tasks = serveLoop server c1 tasks \<and>
         resp c1 = \<lparr>resp_ServiceMethod = ''inner.Auth'', resp_Seq = sq, resp_Error = []\<rparr> \<and>
         dec c1 = tl rest \<and> \<not> closed c1 \<and>
         (\<not> wbroken c \<and> \<not> bufErr c \<longrightarrow>
            rwc c1 = rwc c @ encBuf c @
              [WResponse \<lparr>resp_ServiceMethod = ''inner.Auth'', resp_Seq = sq, resp_Error = []\<rparr>,
               WBody invalidRequest])"
proof -
  have d: "dec c = FRequest (''inner'' @ CHR ''.'' # ''Auth'') sq tr # rest"
    using assms(2) by simp
  have n: "CHR ''.'' \<notin> set ''Auth''" by simp
  from assms(3) obtain err where r: "readRequestHeader server (c\<lparr>req := zeroRequest\<rparr>) =
      (Inl err, headerRead c ''inner.Auth'' sq tr rest)"
    using readRequestHeader_split[OF assms(1) d n, of server] by auto
  from assms(4) have c1: "c1 = sendResponse (NewContext tr (User (auth c)) ''inner.Auth'' sq)
      (headerRead c ''inner.Auth'' sq tr (tl rest)) invalidRequest
      (if ''inner.Auth'' = authServiceMethod then [] else ErrorStr err)"
    by (simp add: authServiceMethod_def)
  from serveLoop_failure[OF assms(1,2) r c1, of tasks] show ?thesis
    by (simp add: authServiceMethod_def)
qed

theorem inner_auth_suppressed_witness:
  "map_option (rwc \<circ> fst)
     (serveLoop exServer1
        (newCodec (exConn [FRequest ''inner.Auth'' 5 None, FAuth ''u'' ''good'',
                           FRequest ''inner.Ping'' 6 None, FValue EmptyStruct])) []) =
     Some [WResponse \<lparr>resp_ServiceMethod = ''inner.Auth'', resp_Seq = 5, resp_Error = []\<rparr>,
           WBody EmptyStruct] \<and>
   map_option (map (mName \<circ> meth \<circ> t_mtype) \<circ> snd)
     (serveLoop exServer1
        (newCodec (exConn [FRequest ''inner.Auth'' 5 None, FAuth ''u'' ''good'',
                           FRequest ''inner.Ping'' 6 None, FValue EmptyStruct])) []) =
     Some [''Ping'']"
proof -
  define c where "c = newCodec (exConn [FRequest ''inner.Auth'' 5 None, FAuth ''u'' ''good'',
                           FRequest ''inner.Ping'' 6 None, FValue EmptyStruct])"
  define c1 where "c1 = sendResponse (NewContext None (User (auth c)) ''inner.Auth'' 5)
      (headerRead c ''inner.Auth'' 5 None
         (tl [FAuth ''u'' ''good'', FRequest ''inner.Ping'' 6 None, FValue EmptyStruct]))
      invalidRequest []"
  have oc: "\<not> closed c" "dec c = FRequest ''inner.Auth'' 5 None #
      [FAuth ''u'' ''good'', FRequest ''inner.Ping'' 6 None, FValue EmptyStruct]"
    and gc: "\<not> wbroken c \<and> \<not> bufErr c" "rwc c = []" "encBuf c = []"
    unfolding c_def by (simp_all add: exCodec_fresh)
  have l: "serviceMap exServer1 ''inner'' = None \<or>
         (\<exists>svc. serviceMap exServer1 ''inner'' = Some svc \<and> methods svc ''Auth'' = None)"
    by (simp add: exServer1_def innerSvc_def)
  have i: "serviceMap exServer1 ''inner'' = Some innerSvc"
    by (simp add: exServer1_def)
  note t = inner_auth_suppressed[OF oc l c1_def, of "[]"]
  from t gc have w: "rwc c1 =
      [WResponse \<lparr>resp_ServiceMethod = ''inner.Auth'', resp_Seq = 5, resp_Error = []\<rparr>,
       WBody EmptyStruct]"
    by (simp add: invalidRequest_def)
  from t have e: "serveLoop exServer1 c [] = serveLoop exServer1 c1 []"
    "dec c1 = [FRequest ''inner.Ping'' 6 None, FValue EmptyStruct]" "\<not> closed c1"
    by simp_all
  from then_ping_view[OF e i] w show ?thesis unfolding c_def by simp
qed

end
